theory Spec2Isabelle
  imports Complex_Main
begin

section \<open>JavaScript strings and values\<close>

text \<open>
  The module \<^verbatim>\<open>src/utils/ocrService.ts\<close> works on JavaScript strings. A string is
  modelled as a \<^typ>\<open>string\<close> whose characters are the code units below 256 (ASCII and the
  Latin-1 supplement). An absent property of a \<^verbatim>\<open>Partial<MedicationInfo>\<close> is \<open>None\<close>.
\<close>

definition cc :: "char \<Rightarrow> nat" where
  "cc c = of_char c"

definition inRange :: "char \<Rightarrow> char \<Rightarrow> char \<Rightarrow> bool" where
  "inRange lo hi c = (cc lo \<le> cc c \<and> cc c \<le> cc hi)"

definition isDigit :: "char \<Rightarrow> bool" where
  "isDigit c = inRange CHR ''0'' CHR ''9'' c"

definition isUpperAZ :: "char \<Rightarrow> bool" where
  "isUpperAZ c = inRange CHR ''A'' CHR ''Z'' c"

definition isLowerAZ :: "char \<Rightarrow> bool" where
  "isLowerAZ c = inRange CHR ''a'' CHR ''z'' c"

definition isAlpha :: "char \<Rightarrow> bool" where
  "isAlpha c = (isUpperAZ c \<or> isLowerAZ c)"

text \<open>Truthiness of an optional string property: \<^verbatim>\<open>undefined\<close> and \<^verbatim>\<open>""\<close> are falsy.\<close>

fun truthy :: "string option \<Rightarrow> bool" where
  "truthy None = False"
| "truthy (Some s) = (s \<noteq> [])"

record MedicationInfo =
  name :: "string option"
  dosage :: "string option"
  frequency :: "string option"
  route :: "string option"
  prescriber :: "string option"
  quantity :: "string option"
  refills :: "string option"
  instructions :: "string option"

definition emptyMed :: MedicationInfo where
  "emptyMed = \<lparr>name = None, dosage = None, frequency = None, route = None,
     prescriber = None, quantity = None, refills = None, instructions = None\<rparr>"

section \<open>getMedicationConfidence\<close>

text \<open>\<^verbatim>\<open>Math.round\<close> rounds to the nearest integer, halves upwards.\<close>

definition jsRound :: "rat \<Rightarrow> int" where
  "jsRound q = \<lfloor>q + 1 / 2\<rfloor>"

text \<open>One \<^verbatim>\<open>if (med.f) { score += w; total += w; }\<close> statement on the pair (score, total).\<close>

definition bump :: "string option \<Rightarrow> int \<Rightarrow> int \<times> int \<Rightarrow> int \<times> int" where
  "bump f w st = (if truthy f then (fst st + w, snd st + w) else st)"

definition getMedicationConfidence :: "MedicationInfo \<Rightarrow> int" where
  "getMedicationConfidence med =
     (let st = (0, 0);
          st = bump (name med) 30 st;
          st = bump (dosage med) 25 st;
          st = bump (frequency med) 20 st;
          st = bump (route med) 10 st;
          st = bump (quantity med) 10 st;
          st = bump (instructions med) 5 st;
          score = fst st; total = snd st
      in if total > 0 then jsRound ((of_int score / of_int total) * 100) else 0)"

section \<open>convertToNDCFormat\<close>

text \<open>\<^verbatim>\<open>s.slice(a, b)\<close> for constants \<open>0 \<le> a \<le> b\<close>; both ends are clipped to the length.\<close>

definition slice :: "nat \<Rightarrow> nat \<Rightarrow> string \<Rightarrow> string" where
  "slice a b s = take (b - a) (drop a s)"

text \<open>\<^verbatim>\<open>s.split(sep)\<close> for a one-character separator.\<close>

fun splitChar :: "char \<Rightarrow> string \<Rightarrow> string \<Rightarrow> string list" where
  "splitChar sep cur [] = [rev cur]"
| "splitChar sep cur (c # cs) =
     (if c = sep then rev cur # splitChar sep [] cs else splitChar sep (c # cur) cs)"

text \<open>\<^verbatim>\<open>[...new Set(formats)]\<close>: the first occurrence of every element, in insertion order.\<close>

fun dedupe :: "string list \<Rightarrow> string list \<Rightarrow> string list" where
  "dedupe seen [] = rev seen"
| "dedupe seen (x # xs) = (if x \<in> set seen then dedupe seen xs else dedupe (x # seen) xs)"

definition dash :: "string \<Rightarrow> string \<Rightarrow> string" where
  "dash a b = a @ ''-'' @ b"

definition convertToNDCFormat :: "string \<Rightarrow> string list" where
  "convertToNDCFormat code =
     (let digits = filter isDigit code;
          formats = [];
          formats = (if CHR ''-'' \<in> set code then
                       (let segments = splitChar CHR ''-'' [] code;
                            formats = (if length segments \<ge> 2
                                       then formats @ [dash (segments ! 0) (segments ! 1)]
                                       else formats)
                        in if length segments \<ge> 3 then formats @ [code] else formats)
                     else formats);
          formats = (if length digits = 11 then formats @
                       [dash (slice 0 4 digits) (dash (slice 4 8 digits) (slice 8 10 digits)),
                        dash (slice 0 4 digits) (slice 4 8 digits),
                        dash (slice 0 5 digits) (dash (slice 5 8 digits) (slice 8 10 digits)),
                        dash (slice 0 5 digits) (slice 5 8 digits),
                        dash (slice 0 5 digits) (dash (slice 5 9 digits) (slice 9 10 digits)),
                        dash (slice 0 5 digits) (slice 5 9 digits)]
                     else formats);
          formats = (if length digits = 10 then
                       (let padded = ''0'' @ digits in formats @
                         [dash (slice 0 4 padded) (dash (slice 4 8 padded) (slice 8 10 padded)),
                          dash (slice 0 5 padded) (dash (slice 5 8 padded) (slice 8 10 padded))])
                     else formats);
          formats = (if length digits = 8
                     then formats @ [dash (slice 0 4 digits) (slice 4 8 digits)] else formats);
          formats = (if length digits = 9
                     then formats @ [dash (slice 0 5 digits) (slice 5 9 digits)] else formats);
          noLeadingZeros = dropWhile (\<lambda>c. c = CHR ''0'') digits;
          formats = (if length noLeadingZeros = 8 then formats @
                       [dash (slice 0 4 noLeadingZeros) (slice 4 8 noLeadingZeros),
                        dash (slice 0 5 noLeadingZeros) (slice 5 8 noLeadingZeros)]
                     else formats)
      in dedupe [] formats)"

section \<open>Regular expressions as the JavaScript engine runs them\<close>

text \<open>
  The parser is written with regular-expression literals. Their meaning is the backtracking
  matcher of the language: alternatives are tried left to right, quantifiers are greedy, and
  a search reports the first match at the leftmost start. A match attempt returns all
  successful end states in the engine's order of preference; the engine's answer is the
  first of them. No pattern of the module reads a capture group that lies inside a
  repetition of more than one round, so the clearing of such groups between rounds is left
  out; there are no back-references and no look-around.
\<close>

definition isSpace :: "char \<Rightarrow> bool" where
  "isSpace c = (cc c \<in> set [9, 10, 11, 12, 13, 32, 160])"

definition isWordChar :: "char \<Rightarrow> bool" where
  "isWordChar c = (isAlpha c \<or> isDigit c \<or> c = CHR ''_'')"

definition isLineTerm :: "char \<Rightarrow> bool" where
  "isLineTerm c = (cc c = 10 \<or> cc c = 13)"

text \<open>
  Case folding of the \<^verbatim>\<open>i\<close> flag. Every letter written in the patterns below is ASCII, and
  a character outside ASCII never folds to an ASCII one, so folding a--z is enough.
\<close>

definition canon :: "char \<Rightarrow> char" where
  "canon c = (if isLowerAZ c then char_of (cc c - 32) else c)"

text \<open>\<^verbatim>\<open>toLowerCase\<close> on one character (A--Z, and the capital letters of Latin-1).\<close>

definition toLowerChar :: "char \<Rightarrow> char" where
  "toLowerChar c =
     (if isUpperAZ c \<or> (192 \<le> cc c \<and> cc c \<le> 222 \<and> cc c \<noteq> 215)
      then char_of (cc c + 32) else c)"

definition toLowerCase :: "string \<Rightarrow> string" where
  "toLowerCase s = map toLowerChar s"

datatype re =
    Eps
  | Cls "char \<Rightarrow> bool"
  | Seq re re
  | Alt re re
  | Rep nat "nat option" re
  | Grp nat re
  | WordB
  | LineStart
  | Start
  | End

abbreviation Star :: "re \<Rightarrow> re" where
  "Star r \<equiv> Rep 0 None r"

abbreviation Plus :: "re \<Rightarrow> re" where
  "Plus r \<equiv> Rep 1 None r"

abbreviation Opt :: "re \<Rightarrow> re" where
  "Opt r \<equiv> Rep 0 (Some 1) r"

text \<open>
  A matcher state: the character before the current position, the text still to read, the
  current index, and the capture groups closed so far (group, start, end), newest first.
\<close>

datatype mstate = MState (prev: "char option") (rest: string) (pos: nat)
  (caps: "(nat \<times> nat \<times> nat) list")

fun isWordOpt :: "char option \<Rightarrow> bool" where
  "isWordOpt None = False"
| "isWordOpt (Some c) = isWordChar c"

fun headOpt :: "string \<Rightarrow> char option" where
  "headOpt [] = None"
| "headOpt (c # cs) = Some c"

fun atLineStart :: "char option \<Rightarrow> bool" where
  "atLineStart None = True"
| "atLineStart (Some c) = isLineTerm c"

text \<open>
  A greedy quantifier \<open>{lo,hi}\<close>: one more iteration is preferred to stopping, and an
  iteration that matches the empty string once \<open>lo\<close> is reached is rejected. Every level
  either lowers \<open>lo\<close> or reads a character, so \<open>lo\<close> plus the length of the text bounds the
  depth; the counter below is started above that bound.
\<close>

fun rep :: "(mstate \<Rightarrow> mstate list) \<Rightarrow> nat \<Rightarrow> nat option \<Rightarrow> nat \<Rightarrow> mstate \<Rightarrow> mstate list" where
  "rep m lo hi 0 st = (if lo = 0 then [st] else [])"
| "rep m lo hi (Suc k) st =
     (if hi = Some 0 then [st]
      else (let more = concat (map (rep m (lo - 1) (map_option (\<lambda>h. h - 1) hi) k)
                          (filter (\<lambda>y. \<not> (lo = 0 \<and> pos y = pos st)) (m st)))
            in if lo \<noteq> 0 then more else more @ [st]))"

primrec mt :: "re \<Rightarrow> nat \<Rightarrow> mstate \<Rightarrow> mstate list" where
  "mt Eps n st = [st]"
| "mt (Cls P) n st =
     (case rest st of
        [] \<Rightarrow> []
      | c # cs \<Rightarrow> if P c then [MState (Some c) cs (Suc (pos st)) (caps st)] else [])"
| "mt (Seq a b) n st = concat (map (mt b n) (mt a n st))"
| "mt (Alt a b) n st = mt a n st @ mt b n st"
| "mt (Rep lo hi a) n st = rep (mt a n) lo hi (lo + n + 1) st"
| "mt (Grp g a) n st =
     map (\<lambda>y. MState (prev y) (rest y) (pos y) ((g, pos st, pos y) # caps y)) (mt a n st)"
| "mt WordB n st = (if isWordOpt (prev st) \<noteq> isWordOpt (headOpt (rest st)) then [st] else [])"
| "mt LineStart n st = (if atLineStart (prev st) then [st] else [])"
| "mt Start n st = (if prev st = None then [st] else [])"
| "mt End n st = (if rest st = [] then [st] else [])"

text \<open>The result of \<^verbatim>\<open>exec\<close>: index of the match, its end, and the captures.\<close>

datatype rmatch = RMatch (index: nat) (mend: nat) (mcaps: "(nat \<times> nat \<times> nat) list")

fun search :: "re \<Rightarrow> nat \<Rightarrow> char option \<Rightarrow> string \<Rightarrow> nat \<Rightarrow> rmatch option" where
  "search r n p [] i =
     (case mt r n (MState p [] i []) of
        [] \<Rightarrow> None
      | y # ys \<Rightarrow> Some (RMatch i (pos y) (caps y)))"
| "search r n p (c # cs) i =
     (case mt r n (MState p (c # cs) i []) of
        [] \<Rightarrow> search r n (Some c) cs (Suc i)
      | y # ys \<Rightarrow> Some (RMatch i (pos y) (caps y)))"

text \<open>\<^verbatim>\<open>text.match(re)\<close> and \<^verbatim>\<open>re.test(text)\<close> for a pattern without the \<^verbatim>\<open>g\<close> flag.\<close>

definition jsMatch :: "re \<Rightarrow> string \<Rightarrow> rmatch option" where
  "jsMatch r s = search r (length s) None s 0"

definition jsTest :: "re \<Rightarrow> string \<Rightarrow> bool" where
  "jsTest r s = (jsMatch r s \<noteq> None)"

text \<open>\<^verbatim>\<open>match[0]\<close> and \<^verbatim>\<open>match[g]\<close>; a group that did not take part is \<^verbatim>\<open>undefined\<close>.\<close>

definition match0 :: "string \<Rightarrow> rmatch \<Rightarrow> string" where
  "match0 s m = slice (index m) (mend m) s"

definition group :: "string \<Rightarrow> rmatch \<Rightarrow> nat \<Rightarrow> string option" where
  "group s m g = map_option (\<lambda>(a, b). slice a b s) (map_of (mcaps m) g)"

text \<open>
  The loops of the \<^verbatim>\<open>g\<close> flag. \<open>skip\<close> counts the characters of the last match that are
  still to be stepped over; after an empty match the search resumes one character later.
\<close>

fun countFrom :: "re \<Rightarrow> nat \<Rightarrow> char option \<Rightarrow> string \<Rightarrow> nat \<Rightarrow> nat \<Rightarrow> nat" where
  "countFrom r n p [] i skip =
     (if skip = 0 \<and> mt r n (MState p [] i []) \<noteq> [] then 1 else 0)"
| "countFrom r n p (c # cs) i skip =
     (if skip > 0 then countFrom r n (Some c) cs (Suc i) (skip - 1)
      else (case mt r n (MState p (c # cs) i []) of
              [] \<Rightarrow> countFrom r n (Some c) cs (Suc i) 0
            | y # ys \<Rightarrow> Suc (countFrom r n (Some c) cs (Suc i) (pos y - i - 1))))"

text \<open>\<^verbatim>\<open>(text.match(re) || []).length\<close> for a pattern with the \<^verbatim>\<open>g\<close> flag.\<close>

definition countMatches :: "re \<Rightarrow> string \<Rightarrow> nat" where
  "countMatches r s = countFrom r (length s) None s 0 0"

fun removeFrom :: "re \<Rightarrow> nat \<Rightarrow> char option \<Rightarrow> string \<Rightarrow> nat \<Rightarrow> nat \<Rightarrow> string" where
  "removeFrom r n p [] i skip = []"
| "removeFrom r n p (c # cs) i skip =
     (if skip > 0 then removeFrom r n (Some c) cs (Suc i) (skip - 1)
      else (case mt r n (MState p (c # cs) i []) of
              [] \<Rightarrow> c # removeFrom r n (Some c) cs (Suc i) 0
            | y # ys \<Rightarrow>
                if pos y = i then c # removeFrom r n (Some c) cs (Suc i) 0
                else removeFrom r n (Some c) cs (Suc i) (pos y - i - 1)))"

text \<open>\<^verbatim>\<open>s.replace(re, '')\<close> for a pattern with the \<^verbatim>\<open>g\<close> flag.\<close>

definition removeAll :: "re \<Rightarrow> string \<Rightarrow> string" where
  "removeAll r s = removeFrom r (length s) None s 0 0"

text \<open>
  \<^verbatim>\<open>s.split(re)\<close> for a pattern without capture groups: the pattern is tried at every
  index \<open>q\<close> of the text; a match that ends at the start \<open>p\<close> of the current section is
  ignored; otherwise the section \<open>[p, q)\<close> is emitted and the scan resumes at the end of the
  match. \<open>cur\<close> holds the current section, reversed.
\<close>

fun splitFrom :: "re \<Rightarrow> nat \<Rightarrow> char option \<Rightarrow> string \<Rightarrow> nat \<Rightarrow> nat \<Rightarrow> string \<Rightarrow> string list" where
  "splitFrom r n p [] i skip cur = [rev cur]"
| "splitFrom r n p (c # cs) i skip cur =
     (if skip > 0 then splitFrom r n (Some c) cs (Suc i) (skip - 1) cur
      else (case mt r n (MState p (c # cs) i []) of
              [] \<Rightarrow> splitFrom r n (Some c) cs (Suc i) 0 (c # cur)
            | y # ys \<Rightarrow>
                if pos y = i then
                  (if cur = [] then splitFrom r n (Some c) cs (Suc i) 0 [c]
                   else rev cur # splitFrom r n (Some c) cs (Suc i) 0 [c])
                else rev cur # splitFrom r n (Some c) cs (Suc i) (pos y - i - 1) []))"

definition jsSplit :: "re \<Rightarrow> string \<Rightarrow> string list" where
  "jsSplit r s =
     (if s = [] then (if mt r 0 (MState None [] 0 []) = [] then [Nil] else [])
      else splitFrom r (length s) None s 0 0 [])"

text \<open>\<^verbatim>\<open>trim\<close>, \<^verbatim>\<open>String.includes\<close> and the text of a template literal.\<close>

definition jsTrim :: "string \<Rightarrow> string" where
  "jsTrim s = rev (dropWhile isSpace (rev (dropWhile isSpace s)))"

fun startsWith :: "string \<Rightarrow> string \<Rightarrow> bool" where
  "startsWith s [] = True"
| "startsWith [] (x # xs) = False"
| "startsWith (c # cs) (x # xs) = (c = x \<and> startsWith cs xs)"

fun jsIncludes :: "string \<Rightarrow> string \<Rightarrow> bool" where
  "jsIncludes [] sub = (sub = [])"
| "jsIncludes (c # cs) sub = (startsWith (c # cs) sub \<or> jsIncludes cs sub)"

fun tmpl :: "string option \<Rightarrow> string" where
  "tmpl None = ''undefined''"
| "tmpl (Some s) = s"

text \<open>Pattern constructors.\<close>

definition chr :: "char \<Rightarrow> re" where
  "chr x = Cls (\<lambda>c. c = x)"

definition chri :: "char \<Rightarrow> re" where
  "chri x = Cls (\<lambda>c. canon c = canon x)"

fun seqs :: "re list \<Rightarrow> re" where
  "seqs [] = Eps"
| "seqs [r] = r"
| "seqs (r # rs) = Seq r (seqs rs)"

fun alts :: "re list \<Rightarrow> re" where
  "alts [] = Cls (\<lambda>c. False)"
| "alts [r] = r"
| "alts (r # rs) = Alt r (alts rs)"

definition lit :: "string \<Rightarrow> re" where
  "lit s = seqs (map chr s)"

definition liti :: "string \<Rightarrow> re" where
  "liti s = seqs (map chri s)"

definition digit :: re where
  "digit = Cls isDigit"

definition ws :: re where
  "ws = Cls isSpace"

definition alpha :: re where
  "alpha = Cls isAlpha"

section \<open>parseMedicationFromText\<close>

text \<open>The pattern literals of the function, in the order of the source.\<close>

definition numRe :: re where
  "numRe = seqs [Plus digit, Opt (seqs [chr CHR ''.'', Plus digit])]"

definition unitRe :: re where
  "unitRe = alts [liti ''mg'', liti ''mcg'', liti ''g'', liti ''ml'',
                  seqs [liti ''unit'', Opt (chri CHR ''s'')]]"

definition dosagePatterns :: "re list" where
  "dosagePatterns =
     [seqs [chr CHR ''('', Grp 1 numRe, Star ws, unitRe, chr CHR '')''],
      seqs [Grp 1 numRe, Star ws, unitRe, WordB]]"

definition takeTabletRe :: re where
  "takeTabletRe = seqs [liti ''take'', Plus ws, Plus digit, Plus ws, liti ''tablet'']"

definition frequencyPatterns :: "re list" where
  "frequencyPatterns =
     [takeTabletRe,
      seqs [WordB,
            Grp 1 (alts [liti ''once'', liti ''twice'',
                         seqs [liti ''three time'', Opt (chri CHR ''s'')]]),
            Plus ws,
            alts [liti ''daily'', liti ''per day'', liti ''a day'', liti ''in the morning'',
                  liti ''in the evening'']],
      seqs [WordB,
            Grp 1 (alts [liti ''QD'', liti ''BID'', liti ''TID'', liti ''QID'',
                         seqs [chri CHR ''Q'', Plus digit, chri CHR ''H'']]),
            WordB],
      seqs [alts [liti ''in the'', liti ''every''], Plus ws,
            Grp 1 (alts [liti ''morning'', liti ''evening'', liti ''afternoon'',
                         liti ''night''])]]"

definition routePatterns :: "re list" where
  "routePatterns =
     [seqs [liti ''by'', Plus ws,
            Grp 1 (alts [liti ''mouth'', liti ''injection'', liti ''inhalation''])],
      seqs [WordB,
            Grp 1 (alts [liti ''oral'', liti ''topical'', liti ''injection'', liti ''IV'',
                         liti ''IM'', liti ''sublingual'', liti ''transdermal'',
                         liti ''inhalation'', liti ''ophthalmic'', liti ''otic'']),
            WordB]]"

text \<open>Under the \<^verbatim>\<open>i\<close> flag the classes \<^verbatim>\<open>[A-Z]\<close> and \<^verbatim>\<open>[a-z]\<close> both accept every ASCII letter.\<close>

definition prescriberPatterns :: "re list" where
  "prescriberPatterns =
     [seqs [alts [liti ''Dr.'', liti ''Doctor''], Plus ws,
            Opt (Grp 1 (seqs [alpha, chr CHR ''.'', Star ws])),
            Grp 2 (seqs [alpha, Plus alpha, Plus ws, alpha, Plus alpha])],
      seqs [Grp 1 (seqs [alpha, Plus alpha, Plus ws, alpha, Plus ws, alpha, Plus alpha]),
            Plus ws,
            alts [liti ''MD'', liti ''RPh'', liti ''NU'', liti ''par F'']]]"

definition quantityRe :: re where
  "quantityRe = seqs [alts [liti ''qty'', liti ''quantity''], Star ws, Opt (chr CHR '':''),
                      Star ws, Grp 1 (Plus digit)]"

definition refillsRe :: re where
  "refillsRe = seqs [alts [seqs [liti ''refill'', Opt (chri CHR ''s'')], liti ''no refills''],
                     Star ws, Opt (chr CHR '':''), Star ws,
                     Grp 1 (alts [Plus digit, liti ''remaining''])]"

definition instructionRe :: re where
  "instructionRe = seqs [takeTabletRe, Star (Cls (\<lambda>c. c \<noteq> CHR ''.'')), chr CHR ''.'']"

definition mixedCasePattern :: re where
  "mixedCasePattern =
     seqs [WordB, Grp 1 (seqs [Plus (Cls isLowerAZ), Cls isUpperAZ, Plus alpha]), WordB]"

definition namePattern :: re where
  "namePattern =
     seqs [Grp 1 (seqs [alpha, Plus alpha,
                        Rep 0 (Some 2) (seqs [Plus ws, Opt alpha, Plus alpha])]),
           Star ws, End]"

definition excludePatterns :: "re list" where
  "excludePatterns =
     [liti ''pharmacy'', liti ''hospital'', liti ''research'', liti ''children'', liti ''jude'',
      seqs [Rep 3 (Some 3) digit, Opt (Cls (\<lambda>c. c = CHR ''-'' \<or> isSpace c)),
            Rep 3 (Some 3) digit, Opt (Cls (\<lambda>c. c = CHR ''-'' \<or> isSpace c)),
            Rep 4 (Some 4) digit],
      seqs [Start, Plus digit, Plus ws, alpha, Plus alpha, Plus ws,
            Grp 1 (alts [liti ''Place'', liti ''Street'', liti ''Road'', liti ''Ave'',
                         liti ''Dr''])],
      seqs [liti ''Rx'', Star ws, Opt (Cls (\<lambda>c. c = CHR '':'' \<or> c = CHR ''#'')), Star ws,
            Plus digit],
      liti ''written'', liti ''filled'', liti ''test'',
      liti ''patient'', liti ''discard'', seqs [liti ''commonly'', Plus ws, liti ''known''],
      seqs [liti ''no'', Plus ws, liti ''refills''],
      seqs [Start, liti ''take'', Plus ws, Plus digit],
      seqs [Start, liti ''by'', Plus ws, liti ''mouth''],
      liti ''MRN'', liti ''mersin'', liti ''TET'']"

definition threeLettersRe :: re where
  "threeLettersRe = Rep 3 None (Cls isAlpha)"

definition edgeNonWordRe :: re where
  "edgeNonWordRe = alts [seqs [Start, Plus (Cls (\<lambda>c. \<not> isWordChar c))],
                         seqs [Plus (Cls (\<lambda>c. \<not> isWordChar c)), End]]"

definition commonlyKnownRe :: re where
  "commonlyKnownRe = seqs [liti ''commonly'', Plus ws, liti ''known'', Plus ws, liti ''as'',
                           Plus ws, Grp 1 (Plus alpha)]"

text \<open>
  The dosage loop: the first pattern that matches sets \<open>dosage\<close> and \<open>dosageMatch\<close> and
  leaves the loop (\<^verbatim>\<open>break\<close>).
\<close>

definition dosageText :: "string \<Rightarrow> rmatch \<Rightarrow> string" where
  "dosageText text m =
     (let m0 = match0 text m;
          number = (if truthy (group text m 1) then group text m 1
                    else map_option (match0 m0) (jsMatch numRe m0));
          unit = map_option (match0 m0) (jsMatch unitRe m0)
      in tmpl number @ '' '' @ tmpl unit)"

fun dosageLoop :: "re list \<Rightarrow> string \<Rightarrow> MedicationInfo \<times> rmatch option
    \<Rightarrow> MedicationInfo \<times> rmatch option" where
  "dosageLoop [] text st = st"
| "dosageLoop (p # ps) text st =
     (case jsMatch p text of
        Some m \<Rightarrow> ((fst st)\<lparr>dosage := Some (dosageText text m)\<rparr>, Some m)
      | None \<Rightarrow> dosageLoop ps text st)"

fun frequencyLoop :: "re list \<Rightarrow> string \<Rightarrow> MedicationInfo \<Rightarrow> MedicationInfo" where
  "frequencyLoop [] text med = med"
| "frequencyLoop (p # ps) text med =
     (case jsMatch p text of
        Some m \<Rightarrow> med\<lparr>frequency := Some (jsTrim (match0 text m))\<rparr>
      | None \<Rightarrow> frequencyLoop ps text med)"

definition routeText :: "string \<Rightarrow> rmatch \<Rightarrow> string" where
  "routeText text m =
     (if truthy (group text m 1) then tmpl (group text m 1) else jsTrim (match0 text m))"

fun routeLoop :: "re list \<Rightarrow> string \<Rightarrow> MedicationInfo \<Rightarrow> MedicationInfo" where
  "routeLoop [] text med = med"
| "routeLoop (p # ps) text med =
     (case jsMatch p text of
        Some m \<Rightarrow> med\<lparr>route := Some (routeText text m)\<rparr>
      | None \<Rightarrow> routeLoop ps text med)"

fun prescriberLoop :: "re list \<Rightarrow> string \<Rightarrow> MedicationInfo \<Rightarrow> MedicationInfo" where
  "prescriberLoop [] text med = med"
| "prescriberLoop (p # ps) text med =
     (case jsMatch p text of
        Some m \<Rightarrow> med\<lparr>prescriber := Some (jsTrim (match0 text m))\<rparr>
      | None \<Rightarrow> prescriberLoop ps text med)"

definition quantityStep :: "string \<Rightarrow> MedicationInfo \<Rightarrow> MedicationInfo" where
  "quantityStep text med =
     (case jsMatch quantityRe text of
        Some m \<Rightarrow> med\<lparr>quantity := group text m 1\<rparr>
      | None \<Rightarrow> med)"

definition refillsStep :: "string \<Rightarrow> MedicationInfo \<Rightarrow> MedicationInfo" where
  "refillsStep text med =
     (case jsMatch refillsRe text of
        Some m \<Rightarrow> med\<lparr>refills := group text m 1\<rparr>
      | None \<Rightarrow> med)"

definition instructionsStep :: "string \<Rightarrow> MedicationInfo \<Rightarrow> MedicationInfo" where
  "instructionsStep text med =
     (case jsMatch instructionRe text of
        Some m \<Rightarrow> med\<lparr>instructions := Some (jsTrim (match0 text m))\<rparr>
      | None \<Rightarrow> med)"

text \<open>
  The four \<^verbatim>\<open>isUsedIn...\<close> tests on a candidate name: the candidate is refused when its
  lower-case form occurs in the frequency, route or instructions already found, or when it
  contains the quantity.
\<close>

fun usedIn :: "string option \<Rightarrow> string \<Rightarrow> bool" where
  "usedIn None candidateLower = False"
| "usedIn (Some v) candidateLower = (v \<noteq> [] \<and> jsIncludes (toLowerCase v) candidateLower)"

fun usedInQuantity :: "string option \<Rightarrow> string \<Rightarrow> bool" where
  "usedInQuantity None candidateLower = False"
| "usedInQuantity (Some v) candidateLower =
     (v \<noteq> [] \<and> jsIncludes candidateLower (toLowerCase v))"

definition candidateFree :: "MedicationInfo \<Rightarrow> string \<Rightarrow> bool" where
  "candidateFree med candidateName =
     (let candidateLower = toLowerCase candidateName
      in \<not> usedIn (frequency med) candidateLower \<and> \<not> usedIn (route med) candidateLower \<and>
         \<not> usedIn (instructions med) candidateLower \<and>
         \<not> usedInQuantity (quantity med) candidateLower)"

text \<open>Name, first strategy: a mixed-case token anywhere in the text.\<close>

definition nameMixedCase :: "string \<Rightarrow> MedicationInfo \<Rightarrow> MedicationInfo" where
  "nameMixedCase text med =
     (case jsMatch mixedCasePattern text of
        None \<Rightarrow> med
      | Some m \<Rightarrow>
          if truthy (group text m 1) then
            (let candidateName = jsTrim (tmpl (group text m 1))
             in if candidateFree med candidateName then med\<lparr>name := Some candidateName\<rparr>
                else med)
          else med)"

text \<open>Name, second strategy: the words right before the dosage.\<close>

definition nameBeforeDosage :: "string \<Rightarrow> rmatch option \<Rightarrow> MedicationInfo \<Rightarrow> MedicationInfo" where
  "nameBeforeDosage text dosageMatch med =
     (if \<not> truthy (name med) then
        (case dosageMatch of
           None \<Rightarrow> med
         | Some dm \<Rightarrow>
             (let textBeforeDosage = jsTrim (take (index dm) text)
              in case jsMatch namePattern textBeforeDosage of
                   None \<Rightarrow> med
                 | Some m \<Rightarrow>
                     if truthy (group textBeforeDosage m 1) then
                       (let candidateName = jsTrim (tmpl (group textBeforeDosage m 1))
                        in if candidateFree med candidateName
                           then med\<lparr>name := Some candidateName\<rparr> else med)
                     else med))
      else med)"

text \<open>Name, third strategy: the first line that looks like a drug name.\<close>

definition textLines :: "string \<Rightarrow> string list" where
  "textLines text = filter (\<lambda>l. l \<noteq> []) (map jsTrim (splitChar CHR 0x0A [] text))"

definition isDrugNameLine :: "string \<Rightarrow> bool" where
  "isDrugNameLine line =
     (if \<not> jsTest threeLettersRe line then False
      else if length line < 3 \<or> length line > 40 then False
      else if list_ex (\<lambda>pattern. jsTest pattern line) excludePatterns then False
      else (let letterRatio = (of_nat (length (filter isAlpha line)) :: rat) / of_nat (length line)
            in letterRatio > 6 / 10))"

definition nameFromLine :: "string \<Rightarrow> MedicationInfo \<Rightarrow> MedicationInfo" where
  "nameFromLine text med =
     (if \<not> truthy (name med) then
        (case find isDrugNameLine (textLines text) of
           None \<Rightarrow> med
         | Some drugNameLine \<Rightarrow>
             if drugNameLine \<noteq> []
             then med\<lparr>name := Some (jsTrim (removeAll edgeNonWordRe drugNameLine))\<rparr>
             else med)
      else med)"

text \<open>Name, fourth strategy: "commonly known as".\<close>

definition nameCommonlyKnown :: "string \<Rightarrow> MedicationInfo \<Rightarrow> MedicationInfo" where
  "nameCommonlyKnown text med =
     (if \<not> truthy (name med) then
        (case jsMatch commonlyKnownRe text of
           None \<Rightarrow> med
         | Some m \<Rightarrow> med\<lparr>name := group text m 1\<rparr>)
      else med)"

definition parseMedicationFromText :: "string \<Rightarrow> MedicationInfo" where
  "parseMedicationFromText text =
     (let medication = emptyMed;
          (medication, dosageMatch) = dosageLoop dosagePatterns text (medication, None);
          medication = frequencyLoop frequencyPatterns text medication;
          medication = routeLoop routePatterns text medication;
          medication = prescriberLoop prescriberPatterns text medication;
          medication = quantityStep text medication;
          medication = refillsStep text medication;
          medication = instructionsStep text medication;
          medication = nameMixedCase text medication;
          medication = nameBeforeDosage text dosageMatch medication;
          medication = nameFromLine text medication;
          medication = nameCommonlyKnown text medication
      in medication)"

section \<open>parseMultipleMedications\<close>

definition rxNumberRe :: re where
  "rxNumberRe = seqs [liti ''Rx'', Star ws, Opt (Cls (\<lambda>c. c = CHR '':'' \<or> c = CHR ''#'')),
                      Star ws, Rep 5 None digit]"

text \<open>
  The class of the bullet test as the source file spells it: an asterisk, U+201A, U+00C4
  and U+00A2. U+201A lies outside the characters modelled here.
\<close>

definition bulletRe :: re where
  "bulletRe = seqs [LineStart, Cls (\<lambda>c. c = CHR ''*'' \<or> cc c = 196 \<or> cc c = 162), ws]"

definition numberedRe :: re where
  "numberedRe = seqs [LineStart, Plus digit, chr CHR ''.'', Plus ws, Cls isUpperAZ]"

definition sectionRe :: re where
  "sectionRe = alts [seqs [chr CHR 0x0A, Star ws, chr CHR 0x0A, Star ws, chr CHR 0x0A],
                     seqs [Plus digit, chr CHR ''.'', Plus ws, Cls isUpperAZ]]"

text \<open>The body of \<^verbatim>\<open>sections.forEach\<close> on the list built so far.\<close>

definition sectionStep :: "MedicationInfo list \<Rightarrow> string \<Rightarrow> MedicationInfo list" where
  "sectionStep medications section' =
     (let trimmed = jsTrim section'
      in if length trimmed > 20 then
           (let med = parseMedicationFromText trimmed
            in if truthy (name med) \<and>
                  (truthy (dosage med) \<or> truthy (frequency med) \<or> truthy (route med))
               then medications @ [med] else medications)
         else medications)"

definition isMultiple :: "string \<Rightarrow> bool" where
  "isMultiple text =
     (let hasMultipleRxNumbers = countMatches rxNumberRe text > 1;
          hasBulletPoints = jsTest bulletRe text;
          hasNumberedList = jsTest numberedRe text
      in \<not> (\<not> hasMultipleRxNumbers \<and> \<not> hasBulletPoints \<and> \<not> hasNumberedList))"

definition parseMultipleMedications :: "string \<Rightarrow> MedicationInfo list" where
  "parseMultipleMedications text =
     (if \<not> isMultiple text then
        (let singleMed = parseMedicationFromText text
         in if truthy (name singleMed) \<or> truthy (dosage singleMed) \<or>
               truthy (frequency singleMed)
            then [singleMed] else [])
      else
        (let sections = jsSplit sectionRe text;
             medications = foldl sectionStep [] sections
         in if length medications > 0 then medications
            else [parseMedicationFromText text]))"

section \<open>First match wins\<close>

text \<open>
  The rule of the specification for a list of patterns: the result is the match of the
  first pattern of the list that matches the text.
\<close>

fun firstMatch :: "re list \<Rightarrow> string \<Rightarrow> rmatch option" where
  "firstMatch [] text = None"
| "firstMatch (p # ps) text =
     (case jsMatch p text of Some m \<Rightarrow> Some m | None \<Rightarrow> firstMatch ps text)"

section \<open>Notions used in the proofs\<close>

text \<open>A matcher state reached from another one by reading the characters \<open>w\<close>.\<close>

definition spells :: "mstate \<Rightarrow> string \<Rightarrow> mstate \<Rightarrow> bool" where
  "spells st w y = (rest st = w @ rest y \<and> pos y = pos st + length w)"

section \<open>Numbers of the image pipeline\<close>

text \<open>
  A JavaScript number is a finite value, an infinity or NaN. Finite values are kept exact
  here; the rounding of the machine format is outside the model. Reading a typed array
  outside its bounds gives \<^verbatim>\<open>undefined\<close>, which arithmetic turns into NaN.
\<close>

datatype jsnum = Num rat | NaN | PosInf | NegInf

fun jsNeg :: "jsnum \<Rightarrow> jsnum" where
  "jsNeg (Num a) = Num (- a)"
| "jsNeg NaN = NaN"
| "jsNeg PosInf = NegInf"
| "jsNeg NegInf = PosInf"

fun jsAdd :: "jsnum \<Rightarrow> jsnum \<Rightarrow> jsnum" where
  "jsAdd (Num a) (Num b) = Num (a + b)"
| "jsAdd NaN b = NaN"
| "jsAdd a NaN = NaN"
| "jsAdd PosInf NegInf = NaN"
| "jsAdd NegInf PosInf = NaN"
| "jsAdd PosInf b = PosInf"
| "jsAdd NegInf b = NegInf"
| "jsAdd a PosInf = PosInf"
| "jsAdd a NegInf = NegInf"

definition jsSub :: "jsnum \<Rightarrow> jsnum \<Rightarrow> jsnum" where
  "jsSub a b = jsAdd a (jsNeg b)"

fun jsSign :: "jsnum \<Rightarrow> int" where
  "jsSign (Num a) = (if a < 0 then - 1 else if a = 0 then 0 else 1)"
| "jsSign NaN = 0"
| "jsSign PosInf = 1"
| "jsSign NegInf = - 1"

fun jsMul :: "jsnum \<Rightarrow> jsnum \<Rightarrow> jsnum" where
  "jsMul (Num a) (Num b) = Num (a * b)"
| "jsMul NaN b = NaN"
| "jsMul a NaN = NaN"
| "jsMul a b =
     (if jsSign a * jsSign b = 0 then NaN
      else if jsSign a * jsSign b > 0 then PosInf else NegInf)"

fun jsDiv :: "jsnum \<Rightarrow> jsnum \<Rightarrow> jsnum" where
  "jsDiv (Num a) (Num b) =
     (if b = 0 then (if a = 0 then NaN else if a > 0 then PosInf else NegInf)
      else Num (a / b))"
| "jsDiv NaN b = NaN"
| "jsDiv a NaN = NaN"
| "jsDiv (Num a) b = Num 0"
| "jsDiv a (Num b) = (if jsSign a * (if b < 0 then - 1 else 1) > 0 then PosInf else NegInf)"
| "jsDiv a b = NaN"

fun jsAbs :: "jsnum \<Rightarrow> jsnum" where
  "jsAbs (Num a) = Num \<bar>a\<bar>"
| "jsAbs NaN = NaN"
| "jsAbs PosInf = PosInf"
| "jsAbs NegInf = PosInf"

text \<open>\<^verbatim>\<open>a < b\<close>: false as soon as one side is NaN.\<close>

fun jsLess :: "jsnum \<Rightarrow> jsnum \<Rightarrow> bool" where
  "jsLess (Num a) (Num b) = (a < b)"
| "jsLess NaN b = False"
| "jsLess a NaN = False"
| "jsLess a NegInf = False"
| "jsLess PosInf b = False"
| "jsLess a b = True"

record ImageData =
  width :: nat
  height :: nat
  data :: "nat list"

text \<open>\<^verbatim>\<open>data[idx]\<close> as an operand of arithmetic.\<close>

definition px :: "nat list \<Rightarrow> nat \<Rightarrow> jsnum" where
  "px d idx = (if idx < length d then Num (of_nat (d ! idx)) else NaN)"

section \<open>detectBlur\<close>

definition laplacianAt :: "ImageData \<Rightarrow> nat \<Rightarrow> nat \<Rightarrow> jsnum" where
  "laplacianAt imageData y x =
     (let d = data imageData; w = width imageData;
          center = px d ((y * w + x) * 4);
          top = px d (((y - 1) * w + x) * 4);
          bottom = px d (((y + 1) * w + x) * 4);
          left = px d ((y * w + (x - 1)) * 4);
          right = px d ((y * w + (x + 1)) * 4)
      in jsAbs (jsSub (jsSub (jsSub (jsSub (jsMul (Num 4) center) top) bottom) left) right))"

text \<open>
  The two nested loops, \<open>y\<close> from 1 while \<open>y < height - 1\<close> and \<open>x\<close> from 1 while
  \<open>x < width - 1\<close>, on the pair (laplacianSum, count).
\<close>

definition blurRow :: "ImageData \<Rightarrow> jsnum \<times> nat \<Rightarrow> nat \<Rightarrow> jsnum \<times> nat" where
  "blurRow imageData st y =
     foldl (\<lambda>acc x. (jsAdd (fst acc) (laplacianAt imageData y x), Suc (snd acc))) st
       [1..<width imageData - 1]"

definition laplacianLoop :: "ImageData \<Rightarrow> jsnum \<times> nat" where
  "laplacianLoop imageData = foldl (blurRow imageData) (Num 0, 0) [1..<height imageData - 1]"

definition detectBlur :: "ImageData \<Rightarrow> jsnum" where
  "detectBlur imageData =
     (let st = laplacianLoop imageData; laplacianSum = fst st; count = snd st
      in jsMul (jsDiv laplacianSum (Num (of_nat count))) (Num 10))"

section \<open>detectRotation\<close>

definition rotationCell :: "ImageData \<Rightarrow> nat \<Rightarrow> jsnum \<times> jsnum \<Rightarrow> nat \<Rightarrow> jsnum \<times> jsnum" where
  "rotationCell imageData y acc x =
     (let d = data imageData; w = width imageData;
          current = px d ((y * w + x) * 4);
          right = px d ((y * w + (x + 1)) * 4);
          bottom = px d (((y + 1) * w + x) * 4)
      in (jsAdd (fst acc) (jsAbs (jsSub current right)),
          jsAdd (snd acc) (jsAbs (jsSub current bottom))))"

definition everyTenth :: "nat \<Rightarrow> nat list" where
  "everyTenth bound = filter (\<lambda>k. k mod 10 = 0) [10..<bound - 10]"

definition detectRotation :: "ImageData \<Rightarrow> nat" where
  "detectRotation imageData =
     (let edges = foldl (\<lambda>acc y. foldl (rotationCell imageData y) acc
                                   (everyTenth (width imageData)))
                    (Num 0, Num 0) (everyTenth (height imageData));
          horizontalEdges = fst edges; verticalEdges = snd edges;
          ratio = jsDiv verticalEdges (jsAdd horizontalEdges (Num 1))
      in if jsLess (Num (12 / 10)) ratio then 90 else 0)"

section \<open>preprocessImage\<close>

datatype strategyName = Standard | HighContrast | Denoise | Aggressive

definition strategies :: "strategyName list" where
  "strategies = [Standard, HighContrast, Denoise, Aggressive]"

text \<open>
  The scoring loop: \<open>i\<close> from 4 while \<open>i < data.length - 4\<close>, step 16; a pair of samples whose
  difference exceeds 200 is one edge.
\<close>

function edgeLoop :: "nat list \<Rightarrow> nat \<Rightarrow> nat \<Rightarrow> nat" where
  "edgeLoop d i edgeCount =
     (if i < length d - 4
      then edgeLoop d (i + 16)
             (if \<bar>int (d ! i) - int (d ! (i + 4))\<bar> > 200 then edgeCount + 1 else edgeCount)
      else edgeCount)"
  by pat_completeness auto
termination
  by (relation "measure (\<lambda>(d, i, c). length d - i)") auto

definition edgeScore :: "nat list \<Rightarrow> nat" where
  "edgeScore d = edgeLoop d 4 0"

record TestResult =
  strategy :: strategyName
  image :: string
  testScore :: nat

text \<open>
  \<^verbatim>\<open>results.sort((a, b) => b.testScore - a.testScore)\<close>: the sort of the language is stable,
  so the result is the one arrangement by falling score that keeps equal scores in their
  order of insertion.
\<close>

fun insertByScore :: "TestResult \<Rightarrow> TestResult list \<Rightarrow> TestResult list" where
  "insertByScore r [] = [r]"
| "insertByScore r (x # xs) =
     (if testScore x > testScore r then x # insertByScore r xs else r # x # xs)"

fun sortByScore :: "TestResult list \<Rightarrow> TestResult list" where
  "sortByScore [] = []"
| "sortByScore (r # rs) = insertByScore r (sortByScore rs)"

text \<open>
  What the browser supplies to one run of \<open>preprocessImage\<close>: whether the file could be read
  and the image decoded, whether each canvas gave a 2d context, the size of the scaled
  canvas (a floating-point computation), and the pixels and encodings the canvas returns.
\<close>

record canvasEnv =
  readOk :: bool
  loadOk :: bool
  ctxOk :: bool
  newWidth :: nat
  newHeight :: nat
  drawnData :: "nat list"
  rotatedCtxOk :: bool
  rotatedData :: "nat list"
  fullColorScaledImage :: string
  testCtxOk :: "strategyName \<Rightarrow> bool"
  scoredData :: "strategyName \<Rightarrow> nat list"
  testImage :: "strategyName \<Rightarrow> string"

record Preprocessed =
  bestImage :: string
  fullColorImage :: string
  finalWidth :: nat
  finalHeight :: nat
  isBlurry :: bool
  rotationCorrected :: bool
  bestStrategy :: strategyName

text \<open>\<^verbatim>\<open>getImageData\<close> throws on a rectangle without area.\<close>

definition getImageData :: "nat \<Rightarrow> nat \<Rightarrow> nat list \<Rightarrow> string + ImageData" where
  "getImageData w h pixels =
     (if w = 0 \<or> h = 0 then Inl ''IndexSizeError''
      else Inr \<lparr>width = w, height = h, data = pixels\<rparr>)"

text \<open>The loop over the strategies; a strategy whose canvas gives no context is skipped.\<close>

definition strategyResults :: "canvasEnv \<Rightarrow> TestResult list" where
  "strategyResults env =
     foldl (\<lambda>results s.
              if \<not> testCtxOk env s then results
              else results @ [\<lparr>strategy = s, image = testImage env s,
                               testScore = edgeScore (scoredData env s)\<rparr>])
       [] strategies"

text \<open>
  Picking the best result. \<^verbatim>\<open>results[0]\<close> of an empty array is \<^verbatim>\<open>undefined\<close>, and reading
  its \<^verbatim>\<open>image\<close> throws a TypeError, which the enclosing \<^verbatim>\<open>catch\<close> turns into a rejection.
\<close>

definition selectBest :: "canvasEnv \<Rightarrow> string + TestResult" where
  "selectBest env =
     (case sortByScore (strategyResults env) of
        [] \<Rightarrow> Inl ''TypeError''
      | bestResult # others \<Rightarrow> Inr bestResult)"

text \<open>The part of the function after \<^verbatim>\<open>const blurScore = detectBlur(imageData)\<close>.\<close>

definition afterBlur :: "canvasEnv \<Rightarrow> nat \<Rightarrow> nat \<Rightarrow> bool \<Rightarrow> jsnum \<Rightarrow> string + Preprocessed" where
  "afterBlur env w h rotated blurScore =
     (let isBlurry = jsLess blurScore (Num 100)
      in case selectBest env of
           Inl e \<Rightarrow> Inl e
         | Inr bestResult \<Rightarrow>
             Inr \<lparr>bestImage = image bestResult,
                  fullColorImage = fullColorScaledImage env,
                  finalWidth = w, finalHeight = h,
                  isBlurry = isBlurry, rotationCorrected = rotated,
                  bestStrategy = strategy bestResult\<rparr>)"

definition preprocessImage :: "canvasEnv \<Rightarrow> string + Preprocessed" where
  "preprocessImage env =
     (if \<not> readOk env then Inl ''Failed to read image file''
      else if \<not> loadOk env then Inl ''Failed to load image''
      else if \<not> ctxOk env then Inl ''Canvas context not available''
      else
        (case getImageData (newWidth env) (newHeight env) (drawnData env) of
           Inl e \<Rightarrow> Inl e
         | Inr scaled \<Rightarrow>
             (let rotationAngle = detectRotation scaled
              in if rotationAngle \<noteq> 0 \<and> \<not> rotatedCtxOk env
                 then Inl ''Could not get rotated canvas context''
                 else
                   (let rotated = (rotationAngle \<noteq> 0);
                        w = (if rotated then newHeight env else newWidth env);
                        h = (if rotated then newWidth env else newHeight env);
                        pixels = (if rotated then rotatedData env else drawnData env)
                    in case getImageData w h pixels of
                         Inl e \<Rightarrow> Inl e
                       | Inr imageData \<Rightarrow>
                           afterBlur env w h rotated (detectBlur imageData)))))"

section \<open>runOCR\<close>

record Word =
  wordText :: "string option"
  bbox :: "(nat \<times> nat \<times> nat \<times> nat) option"
  wordConfidence :: "rat option"

record RecognizeData =
  dataText :: string
  dataConfidence :: rat
  dataLines :: "Word list option list option"

record OcrWord =
  owText :: string
  owBbox :: "nat \<times> nat \<times> nat \<times> nat"
  owConfidence :: rat

record OCRResult =
  resultText :: string
  confidence :: rat
  preprocessedImage :: string
  previewImage :: string
  previewImageWidth :: nat
  previewImageHeight :: nat
  resultIsBlurry :: bool
  resultRotationCorrected :: bool
  preprocessingStrategy :: strategyName
  words :: "OcrWord list"

text \<open>The two nested \<^verbatim>\<open>forEach\<close> loops that collect the words.\<close>

definition pushWord :: "OcrWord list \<Rightarrow> Word \<Rightarrow> OcrWord list" where
  "pushWord ws' word =
     (case (wordText word, bbox word) of
        (Some t, Some b) \<Rightarrow>
          if t \<noteq> [] then
            ws' @ [\<lparr>owText = t, owBbox = b,
                    owConfidence = (case wordConfidence word of
                                      None \<Rightarrow> 0 | Some c \<Rightarrow> c)\<rparr>]
          else ws'
      | other \<Rightarrow> ws')"

definition collectWords :: "RecognizeData \<Rightarrow> OcrWord list" where
  "collectWords d =
     (case dataLines d of
        None \<Rightarrow> []
      | Some lines \<Rightarrow>
          foldl (\<lambda>ws' line. case line of None \<Rightarrow> ws' | Some lw \<Rightarrow> foldl pushWord ws' lw)
            [] lines)"

text \<open>
  What the recognition engine does in one run: whether \<^verbatim>\<open>createWorker\<close> rejects (with which
  message), what \<^verbatim>\<open>recognize\<close> returns, and whether the first and the second call of
  \<^verbatim>\<open>terminate\<close> reject.
\<close>

record engineEnv =
  createWorker :: "string option"
  recognize :: "string + RecognizeData"
  terminateFirst :: "string option"
  terminateSecond :: "string option"

datatype event = Created | Recognized | Terminated

text \<open>
  The \<^verbatim>\<open>catch\<close> block: terminate the worker, then throw the fixed error. \<open>n\<close> is the number
  of \<^verbatim>\<open>terminate\<close> calls made before.
\<close>

definition nextTerminate :: "engineEnv \<Rightarrow> nat \<Rightarrow> string option" where
  "nextTerminate eng n = (if n = 0 then terminateFirst eng else terminateSecond eng)"

definition catchBlock :: "engineEnv \<Rightarrow> nat \<Rightarrow> event list \<Rightarrow> (string + OCRResult) \<times> event list" where
  "catchBlock eng n trace =
     (case nextTerminate eng n of
        Some e \<Rightarrow> (Inl e, trace @ [Terminated])
      | None \<Rightarrow> (Inl ''Failed to extract text from image'', trace @ [Terminated]))"

text \<open>
  The result of a run: the value or the message of the error the caller receives, and the
  calls made on the worker, in order.
\<close>

definition runOCR :: "canvasEnv \<Rightarrow> engineEnv \<Rightarrow> (string + OCRResult) \<times> event list" where
  "runOCR env eng =
     (case createWorker eng of
        Some e \<Rightarrow> (Inl e, [])
      | None \<Rightarrow>
          (case preprocessImage env of
             Inl e \<Rightarrow> catchBlock eng 0 [Created]
           | Inr preprocessed \<Rightarrow>
               (case recognize eng of
                  Inl e \<Rightarrow> catchBlock eng 0 [Created, Recognized]
                | Inr d \<Rightarrow>
                    (let ws' = collectWords d
                     in case terminateFirst eng of
                          Some e \<Rightarrow> catchBlock eng 1 [Created, Recognized, Terminated]
                        | None \<Rightarrow>
                            (Inr \<lparr>resultText = dataText d,
                                  confidence = dataConfidence d,
                                  preprocessedImage = bestImage preprocessed,
                                  previewImage = fullColorImage preprocessed,
                                  previewImageWidth = finalWidth preprocessed,
                                  previewImageHeight = finalHeight preprocessed,
                                  resultIsBlurry = isBlurry preprocessed,
                                  resultRotationCorrected = rotationCorrected preprocessed,
                                  preprocessingStrategy = bestStrategy preprocessed,
                                  words = ws'\<rparr>,
                             [Created, Recognized, Terminated])))))"

section \<open>What the blur score can and cannot reach\<close>

text \<open>The image that \<open>detectRotation\<close> reads, and the image that \<open>detectBlur\<close> reads.\<close>

definition scaledImage :: "canvasEnv \<Rightarrow> ImageData" where
  "scaledImage env =
     \<lparr>width = newWidth env, height = newHeight env, data = drawnData env\<rparr>"

definition blurInput :: "canvasEnv \<Rightarrow> ImageData" where
  "blurInput env =
     (if detectRotation (scaledImage env) \<noteq> 0
      then \<lparr>width = newHeight env, height = newWidth env, data = rotatedData env\<rparr>
      else scaledImage env)"

text \<open>The reasons for which \<open>preprocessImage\<close> rejects; none of them reads the blur score.\<close>

definition failsWithoutBlur :: "canvasEnv \<Rightarrow> bool" where
  "failsWithoutBlur env =
     (\<not> readOk env \<or> \<not> loadOk env \<or> \<not> ctxOk env \<or> newWidth env = 0 \<or> newHeight env = 0 \<or>
      (detectRotation (scaledImage env) \<noteq> 0 \<and> \<not> rotatedCtxOk env) \<or>
      isl (selectBest env))"

section \<open>Concrete inputs\<close>

text \<open>A 3 by 3 image with one bright interior pixel, and an image two pixels wide.\<close>

definition img3 :: ImageData where
  "img3 = \<lparr>width = 3, height = 3, data = (replicate 36 0)[16 := 255]\<rparr>"

definition img2 :: ImageData where
  "img2 = \<lparr>width = 2, height = 5, data = replicate 40 7\<rparr>"

text \<open>A 3 by 3 image whose only interior pixel differs by 1 from its neighbours: score 40.\<close>

definition imgBlurry :: ImageData where
  "imgBlurry = \<lparr>width = 3, height = 3, data = (replicate 36 0)[16 := 1]\<rparr>"

text \<open>The place of a strategy in the enumeration \<open>strategies\<close>.\<close>

definition position :: "strategyName \<Rightarrow> nat" where
  "position s = length (takeWhile (\<lambda>t. t \<noteq> s) strategies)"

text \<open>A buffer of three pixels with one strong edge, and one without.\<close>

definition edgy :: "nat list" where
  "edgy = (replicate 12 0)[4 := 255]"

definition flat :: "nat list" where
  "flat = replicate 12 0"

text \<open>
  A run in which every canvas gives a context, the image needs no rotation, and the
  strategies high-contrast and aggressive tie with one edge each.
\<close>

definition envTie :: canvasEnv where
  "envTie = \<lparr>readOk = True, loadOk = True, ctxOk = True, newWidth = 3, newHeight = 3,
     drawnData = data img3, rotatedCtxOk = True, rotatedData = [],
     fullColorScaledImage = ''data:image/png;base64,AAAA'',
     testCtxOk = (\<lambda>s. True),
     scoredData = (\<lambda>s. if s = HighContrast \<or> s = Aggressive then edgy else flat),
     testImage = (\<lambda>s. ''data:image/png;base64,BBBB'')\<rparr>"

text \<open>The same run on the blurry image.\<close>

definition envBlurry :: canvasEnv where
  "envBlurry = envTie\<lparr>drawnData := data imgBlurry\<rparr>"

text \<open>The same run when no test canvas gives a context.\<close>

definition envNoTestCtx :: canvasEnv where
  "envNoTestCtx = envTie\<lparr>testCtxOk := (\<lambda>s. False)\<rparr>"

text \<open>Engines: one that works, one whose worker cannot be created, one that cannot recognise.\<close>

definition engOk :: engineEnv where
  "engOk = \<lparr>createWorker = None,
     recognize = Inr \<lparr>dataText = ''Lisinopril 10mg'', dataConfidence = 91, dataLines = None\<rparr>,
     terminateFirst = None, terminateSecond = None\<rparr>"

definition engNoWorker :: engineEnv where
  "engNoWorker = engOk\<lparr>createWorker := Some ''NetworkError: failed to load language data''\<rparr>"

definition engNoRecognize :: engineEnv where
  "engNoRecognize = engOk\<lparr>recognize := Inl ''recognize failed''\<rparr>"

text \<open>The bottle label of the specification's scenario.\<close>

definition labelText :: string where
  "labelText =
     ''Lisinopril 10mg\<newline>Take 1 tablet by mouth once daily\<newline>Qty: 30\<newline>Refills: 2''"

text \<open>A numbered fragment in which nothing can be recognised.\<close>

definition fragmentText :: string where
  "fragmentText = ''1. A''"

text \<open>
  A text in which, for dosage, frequency, route and prescriber, the pattern of lower priority
  matches earlier in the document than the pattern of higher priority.
\<close>

definition competingText :: string where
  "competingText =
     ''10 mg once daily (5 mg) take 1 tablet, oral, by mouth. John Q Public MD, Dr. Jane Doe''"

text \<open>A numbered item, and a list with a line before its first item.\<close>

definition itemText :: string where
  "itemText = ''1. Lisinopril 10mg''"

definition headedListText :: string where
  "headedListText = ''Amoxicillin 500mg capsule oral\<newline>1. Lisinopril 10mg''"

text \<open>Two lines separated by two blank lines.\<close>

definition blankLineText :: string where
  "blankLineText = ''Ab\<newline>\<newline>\<newline>Metformin''"

section \<open>Properties\<close>

subsection \<open>Confidence\<close>

lemma jsRound_hundred: "jsRound 100 = 100"
  unfolding jsRound_def by linarith

lemma confidence_cases:
  "getMedicationConfidence med =
     (if truthy (name med) \<or> truthy (dosage med) \<or> truthy (frequency med) \<or>
         truthy (route med) \<or> truthy (quantity med) \<or> truthy (instructions med)
      then 100 else 0)"
  by (auto simp add: getMedicationConfidence_def bump_def Let_def jsRound_hundred)

text \<open>
  Claim C1. For every medication candidate the derived confidence is 100 when at least one
  of the weighted fields name, dosage, frequency, route, quantity, instructions is populated
  (a non-empty string), and 0 when none of them is; so \<open>getMedicationConfidence\<close> returns
  only 0 or 100.
\<close>

theorem confidence_renormalized:
  "(truthy (name med) \<or> truthy (dosage med) \<or> truthy (frequency med) \<or>
    truthy (route med) \<or> truthy (quantity med) \<or> truthy (instructions med)
      \<longrightarrow> getMedicationConfidence med = 100) \<and>
   (\<not> (truthy (name med) \<or> truthy (dosage med) \<or> truthy (frequency med) \<or>
       truthy (route med) \<or> truthy (quantity med) \<or> truthy (instructions med))
      \<longrightarrow> getMedicationConfidence med = 0) \<and>
   getMedicationConfidence med \<in> {0, 100}"
  by (simp add: confidence_cases)

theorem confidence_renormalized_witness:
  "truthy (name (emptyMed\<lparr>name := Some ''Lisinopril'', dosage := Some ''10 mg''\<rparr>)) \<and>
   getMedicationConfidence (emptyMed\<lparr>name := Some ''Lisinopril'', dosage := Some ''10 mg''\<rparr>) = 100 \<and>
   \<not> truthy (name (emptyMed\<lparr>refills := Some ''2'', prescriber := Some []\<rparr>)) \<and>
   getMedicationConfidence (emptyMed\<lparr>refills := Some ''2'', prescriber := Some []\<rparr>) = 0"
  using confidence_renormalized [of "emptyMed\<lparr>name := Some ''Lisinopril'', dosage := Some ''10 mg''\<rparr>"]
    confidence_renormalized [of "emptyMed\<lparr>refills := Some ''2'', prescriber := Some []\<rparr>"]
  by (simp add: emptyMed_def)

subsection \<open>NDC formats\<close>

lemma ndc_eleven_list:
  "convertToNDCFormat ''12345678901'' =
     [''1234-5678-90'', ''1234-5678'', ''12345-678-90'', ''12345-678'',
      ''12345-6789-0'', ''12345-6789'']"
  by code_simp

text \<open>
  Claim C5. \<open>convertToNDCFormat "12345678901"\<close> produces, without duplicates and compared as
  a set, exactly the six hyphenation variants 1234-5678-90, 1234-5678, 12345-678-90,
  12345-678, 12345-6789-0 and 12345-6789.
\<close>

theorem ndc_eleven_digits:
  "set (convertToNDCFormat ''12345678901'') =
     {''1234-5678-90'', ''1234-5678'', ''12345-678-90'', ''12345-678'',
      ''12345-6789-0'', ''12345-6789''} \<and>
   distinct (convertToNDCFormat ''12345678901'')"
  by (simp add: ndc_eleven_list)

subsection \<open>Blur score\<close>

lemma px_in: "idx < length d \<Longrightarrow> px d idx = Num (of_nat (d ! idx))"
  by (simp add: px_def)

lemma interior_index:
  assumes "y < h" "x < (w::nat)"
  shows "(y * w + x) * 4 < 4 * w * h"
proof -
  have "y * w + x < y * w + w" using assms by simp
  also have "\<dots> = Suc y * w" by simp
  also have "\<dots> \<le> h * w" using assms by (intro mult_le_mono1) simp
  finally show ?thesis by (simp add: mult.commute)
qed

lemma laplacianAt_num:
  assumes wf: "length (data img) = 4 * width img * height img"
    and y: "1 \<le> y" "y + 1 < height img" and x: "1 \<le> x" "x + 1 < width img"
  shows "\<exists>r\<ge>0. laplacianAt img y x = Num r"
proof -
  have c: "(y * width img + x) * 4 < length (data img)"
    using interior_index [of y "height img" x "width img"] y x wf by simp
  have t: "((y - 1) * width img + x) * 4 < length (data img)"
    using interior_index [of "y - 1" "height img" x "width img"] y x wf by simp
  have b: "((y + 1) * width img + x) * 4 < length (data img)"
    using interior_index [of "y + 1" "height img" x "width img"] y x wf by simp
  have l: "(y * width img + (x - 1)) * 4 < length (data img)"
    using interior_index [of y "height img" "x - 1" "width img"] y x wf by simp
  have r: "(y * width img + (x + 1)) * 4 < length (data img)"
    using interior_index [of y "height img" "x + 1" "width img"] y x wf by simp
  show ?thesis
    unfolding laplacianAt_def Let_def px_in [OF c] px_in [OF t] px_in [OF b] px_in [OF l]
      px_in [OF r]
    by (simp add: jsSub_def)
qed

lemma blurRow_fold:
  assumes wf: "length (data img) = 4 * width img * height img"
    and y: "1 \<le> y" "y + 1 < height img"
    and xs: "\<forall>x\<in>set xs. 1 \<le> x \<and> x + 1 < width img"
    and q: "0 \<le> q"
  shows "\<exists>q'\<ge>0. foldl (\<lambda>acc x. (jsAdd (fst acc) (laplacianAt img y x), Suc (snd acc)))
            (Num q, c) xs = (Num q', c + length xs)"
  using xs q
proof (induction xs arbitrary: q c)
  case Nil
  then show ?case by simp
next
  case (Cons x xs)
  from Cons.prems have "1 \<le> x" "x + 1 < width img" by simp_all
  with laplacianAt_num [OF wf y] obtain r where r: "0 \<le> r" "laplacianAt img y x = Num r"
    by blast
  have "0 \<le> q + r" using Cons.prems r by simp
  with Cons.IH [of "q + r" "Suc c"] Cons.prems obtain q' where
    "0 \<le> q'" "foldl (\<lambda>acc x. (jsAdd (fst acc) (laplacianAt img y x), Suc (snd acc)))
            (Num (q + r), Suc c) xs = (Num q', Suc c + length xs)"
    by auto
  then show ?case using r by auto
qed

lemma blurRow_num:
  assumes wf: "length (data img) = 4 * width img * height img"
    and y: "1 \<le> y" "y + 1 < height img" and q: "0 \<le> q"
  shows "\<exists>q'\<ge>0. blurRow img (Num q, c) y = (Num q', c + (width img - 2))"
proof -
  have "\<forall>x\<in>set [1..<width img - 1]. 1 \<le> x \<and> x + 1 < width img" by auto
  from blurRow_fold [OF wf y this q, of c] show ?thesis
    by (simp add: blurRow_def numeral_2_eq_2)
qed

lemma laplacian_fold:
  assumes wf: "length (data img) = 4 * width img * height img"
    and ys: "\<forall>y\<in>set ys. 1 \<le> y \<and> y + 1 < height img" and q: "0 \<le> q"
  shows "\<exists>q'\<ge>0. foldl (blurRow img) (Num q, c) ys = (Num q', c + length ys * (width img - 2))"
  using ys q
proof (induction ys arbitrary: q c)
  case Nil
  then show ?case by simp
next
  case (Cons y ys)
  from Cons.prems have "1 \<le> y" "y + 1 < height img" by simp_all
  from blurRow_num [OF wf this Cons.prems(2), of c] obtain q1 where
    q1: "0 \<le> q1" "blurRow img (Num q, c) y = (Num q1, c + (width img - 2))" by blast
  from Cons.IH [of q1 "c + (width img - 2)"] Cons.prems q1 obtain q' where
    "0 \<le> q'" "foldl (blurRow img) (Num q1, c + (width img - 2)) ys =
       (Num q', c + (width img - 2) + length ys * (width img - 2))" by auto
  then show ?case using q1 by auto
qed

lemma laplacianLoop_num:
  assumes wf: "length (data img) = 4 * width img * height img"
  shows "\<exists>q\<ge>0. laplacianLoop img = (Num q, (height img - 2) * (width img - 2))"
proof -
  have "\<forall>y\<in>set [1..<height img - 1]. 1 \<le> y \<and> y + 1 < height img" by auto
  from laplacian_fold [OF wf this, of 0 0] show ?thesis
    by (simp add: laplacianLoop_def numeral_2_eq_2)
qed

lemma laplacianLoop_small:
  assumes "width img \<le> 2 \<or> height img \<le> 2"
  shows "laplacianLoop img = (Num 0, 0)"
proof (cases "height img \<le> 2")
  case True
  then show ?thesis by (simp add: laplacianLoop_def)
next
  case False
  with assms have w: "width img \<le> 2" by simp
  have row: "blurRow img st y = st" for st y
    using w by (simp add: blurRow_def)
  have "foldl (blurRow img) st ys = st" for st ys
    by (induction ys arbitrary: st) (simp_all add: row)
  then show ?thesis by (simp add: laplacianLoop_def)
qed

text \<open>
  Claim C10. \<open>detectBlur\<close> averages the Laplacian response over the interior pixels. For an
  image of width and height at least 3 (whose buffer has the four bytes per pixel that an
  ImageData has) the count is \<open>(width - 2) * (height - 2)\<close>, which is positive, and the score
  is a non-negative number. For an image of width or height at most 2 the body of the loop
  is never run, sum and count stay 0, the quotient 0/0 is NaN, the score is NaN, and the
  comparison \<open>blurScore < 100\<close> is false, so the image is reported as not blurry.
\<close>

theorem detectBlur_interior:
  "(3 \<le> width img \<and> 3 \<le> height img \<and>
      length (data img) = 4 * width img * height img \<longrightarrow>
        snd (laplacianLoop img) = (width img - 2) * (height img - 2) \<and>
        0 < snd (laplacianLoop img) \<and>
        (\<exists>q\<ge>0. detectBlur img = Num q)) \<and>
   (width img \<le> 2 \<or> height img \<le> 2 \<longrightarrow>
        laplacianLoop img = (Num 0, 0) \<and> detectBlur img = NaN \<and>
        \<not> jsLess (detectBlur img) (Num 100) \<and>
        (\<forall>env w h rot r. afterBlur env w h rot (detectBlur img) = Inr r \<longrightarrow> \<not> isBlurry r))"
proof (intro conjI impI)
  assume a: "3 \<le> width img \<and> 3 \<le> height img \<and> length (data img) = 4 * width img * height img"
  then obtain q where q: "0 \<le> q" "laplacianLoop img = (Num q, (height img - 2) * (width img - 2))"
    using laplacianLoop_num by blast
  show "snd (laplacianLoop img) = (width img - 2) * (height img - 2)"
    using q by (simp add: mult.commute)
  show "0 < snd (laplacianLoop img)" using q a by simp
  have "(height img - 2) * (width img - 2) \<noteq> 0" using a by simp
  then have "detectBlur img = Num (q / of_nat ((height img - 2) * (width img - 2)) * 10)"
    using q by (simp add: detectBlur_def Let_def)
  moreover have "0 \<le> q / of_nat ((height img - 2) * (width img - 2)) * 10"
    using q by simp
  ultimately show "\<exists>q\<ge>0. detectBlur img = Num q" by blast
next
  assume a: "width img \<le> 2 \<or> height img \<le> 2"
  then show l: "laplacianLoop img = (Num 0, 0)" by (rule laplacianLoop_small)
  then show d: "detectBlur img = NaN" by (simp add: detectBlur_def Let_def)
  then show "\<not> jsLess (detectBlur img) (Num 100)" by simp
  show "\<forall>env w h rot r. afterBlur env w h rot (detectBlur img) = Inr r \<longrightarrow> \<not> isBlurry r"
    using d by (auto simp add: afterBlur_def Let_def split: sum.splits)
qed

theorem detectBlur_interior_witness:
  "3 \<le> width img3 \<and> 3 \<le> height img3 \<and> length (data img3) = 4 * width img3 * height img3 \<and>
   0 < snd (laplacianLoop img3) \<and> (\<exists>q\<ge>0. detectBlur img3 = Num q) \<and>
   (width img2 \<le> 2 \<or> height img2 \<le> 2) \<and> detectBlur img2 = NaN"
  using detectBlur_interior [of img3] detectBlur_interior [of img2]
  by (simp add: img3_def img2_def)

subsection \<open>Strategy selection\<close>

lemma strategyResults_eq:
  "strategyResults env =
     map (\<lambda>s. \<lparr>strategy = s, image = testImage env s, testScore = edgeScore (scoredData env s)\<rparr>)
       (filter (testCtxOk env) strategies)"
  by (simp add: strategyResults_def strategies_def)

lemma insertByScore_hd:
  "hd (insertByScore r xs) =
     (if xs \<noteq> [] \<and> testScore (hd xs) > testScore r then hd xs else r)"
  by (cases xs) simp_all

lemma insertByScore_nonempty: "insertByScore r xs \<noteq> []"
  by (cases xs) simp_all

lemma sortByScore_nonempty: "rs \<noteq> [] \<Longrightarrow> sortByScore rs \<noteq> []"
  by (cases rs) (simp_all add: insertByScore_nonempty)

text \<open>The head of the sorted list is the first element of greatest score.\<close>

lemma sortByScore_hd:
  "rs \<noteq> [] \<Longrightarrow>
   \<exists>pre post. rs = pre @ hd (sortByScore rs) # post \<and>
     (\<forall>r\<in>set pre. testScore r < testScore (hd (sortByScore rs))) \<and>
     (\<forall>r\<in>set post. testScore r \<le> testScore (hd (sortByScore rs)))"
proof (induction rs)
  case Nil
  then show ?case by simp
next
  case (Cons r rs)
  show ?case
  proof (cases "rs = []")
    case True
    have "[r] = [] @ r # []" by simp
    then show ?thesis using True by force
  next
    case False
    let ?b = "hd (sortByScore rs)"
    from Cons.IH [OF False] obtain pre post where
      split: "rs = pre @ ?b # post"
      and pre: "\<forall>x\<in>set pre. testScore x < testScore ?b"
      and post: "\<forall>x\<in>set post. testScore x \<le> testScore ?b" by blast
    have ne: "sortByScore rs \<noteq> []" using False by (rule sortByScore_nonempty)
    show ?thesis
    proof (cases "testScore ?b > testScore r")
      case True
      then have hd: "hd (sortByScore (r # rs)) = ?b"
        using ne by (simp add: insertByScore_hd)
      have "r # rs = (r # pre) @ ?b # post" using split by simp
      moreover have "\<forall>x\<in>set (r # pre). testScore x < testScore ?b" using pre True by simp
      ultimately show ?thesis using post unfolding hd by blast
    next
      case False
      then have hd: "hd (sortByScore (r # rs)) = r"
        using ne by (simp add: insertByScore_hd)
      have "\<forall>x\<in>set rs. testScore x \<le> testScore r"
      proof
        fix x assume "x \<in> set rs"
        then have "x \<in> set pre \<or> x = ?b \<or> x \<in> set post"
          using split by (metis Un_iff set_ConsD set_append)
        then have "testScore x \<le> testScore ?b" using pre post by auto
        then show "testScore x \<le> testScore r" using False by simp
      qed
      moreover have "r # rs = [] @ r # rs" by simp
      ultimately show ?thesis unfolding hd by (metis empty_iff list.set(1))
    qed
  qed
qed

lemma position_values:
  "position Standard = 0" "position HighContrast = 1" "position Denoise = 2"
  "position Aggressive = 3"
  by (simp_all add: position_def strategies_def)

lemma filter_strategies_sorted:
  "sorted_wrt (\<lambda>s t. position s < position t) (filter P strategies)"
  by (simp add: strategies_def position_values)

lemma strategies_all: "s \<in> set strategies"
  by (cases s) (simp_all add: strategies_def)

text \<open>
  Claim C6, as amended. Whenever at least one of the four test canvases gives a 2d context,
  the selector returns a strategy whose canvas gave a context, with its image and its edge
  count (pairs of samples differing by more than 200, taken every 16 bytes); no strategy
  with a context has a greater edge count, and every strategy with a context that comes
  earlier in the enumeration standard, high-contrast, denoise, aggressive has a strictly
  smaller one. When the standard canvas gave a context and all edge counts are zero, the
  result is standard.
\<close>

theorem selector_first_maximum:
  assumes avail: "\<exists>s. testCtxOk env s"
  shows "\<exists>best. selectBest env = Inr best \<and>
           testCtxOk env (strategy best) \<and>
           image best = testImage env (strategy best) \<and>
           testScore best = edgeScore (scoredData env (strategy best)) \<and>
           (\<forall>s. testCtxOk env s \<longrightarrow> edgeScore (scoredData env s) \<le> testScore best) \<and>
           (\<forall>s. testCtxOk env s \<and> position s < position (strategy best) \<longrightarrow>
                  edgeScore (scoredData env s) < testScore best) \<and>
           (testCtxOk env Standard \<and> (\<forall>s. edgeScore (scoredData env s) = 0) \<longrightarrow>
                  strategy best = Standard)"
proof -
  let ?mk = "\<lambda>s. \<lparr>strategy = s, image = testImage env s,
                    testScore = edgeScore (scoredData env s)\<rparr>"
  let ?av = "filter (testCtxOk env) strategies"
  let ?rs = "strategyResults env"
  have rs: "?rs = map ?mk ?av" by (rule strategyResults_eq)
  from avail obtain s0 where "testCtxOk env s0" by blast
  then have "s0 \<in> set ?av" using strategies_all by simp
  then have "?av \<noteq> []" by (metis empty_iff list.set(1))
  then have ne: "?rs \<noteq> []" unfolding rs by simp
  let ?b = "hd (sortByScore ?rs)"
  from sortByScore_hd [OF ne] obtain pre post where
    split: "?rs = pre @ ?b # post"
    and pre: "\<forall>r\<in>set pre. testScore r < testScore ?b"
    and post: "\<forall>r\<in>set post. testScore r \<le> testScore ?b" by blast
  have sel: "selectBest env = Inr ?b"
    using sortByScore_nonempty [OF ne]
    by (cases "sortByScore ?rs") (simp_all add: selectBest_def)
  have bin: "?b \<in> set ?rs" using split by (metis in_set_conv_decomp)
  then obtain t where t: "t \<in> set ?av" "?b = ?mk t" unfolding rs by auto
  then have tb: "strategy ?b = t" by simp
  have ok: "testCtxOk env t" using t by simp
  have all: "edgeScore (scoredData env s) \<le> testScore ?b" if "testCtxOk env s" for s
  proof -
    have "?mk s \<in> set ?rs" unfolding rs using that strategies_all by simp
    then have "?mk s \<in> set pre \<or> ?mk s = ?b \<or> ?mk s \<in> set post"
      using split by (metis Un_iff set_ConsD set_append)
    then have "testScore (?mk s) \<le> testScore ?b"
    proof (elim disjE)
      assume "?mk s \<in> set pre"
      then show ?thesis using pre less_imp_le by blast
    next
      assume "?mk s = ?b"
      then show ?thesis by (metis order_refl)
    next
      assume "?mk s \<in> set post"
      then show ?thesis using post by blast
    qed
    then show ?thesis by simp
  qed
  have map_split: "map ?mk ?av = pre @ ?b # post" using split rs by simp
  then obtain a1 x a2 where av: "?av = a1 @ x # a2" and p1: "pre = map ?mk a1"
    and px: "?b = ?mk x" and p2: "post = map ?mk a2"
    by (auto simp add: map_eq_append_conv map_eq_Cons_conv)
  have xt: "x = t" using px tb by (metis TestResult.select_convs(1))
  have srt: "sorted_wrt (\<lambda>s t. position s < position t) (a1 @ x # a2)"
    using filter_strategies_sorted [of "testCtxOk env"] av by simp
  have earlier: "edgeScore (scoredData env s) < testScore ?b"
    if "testCtxOk env s" "position s < position t" for s
  proof -
    have "s \<in> set ?av" using that strategies_all by simp
    then have "s \<in> set a1 \<or> s = x \<or> s \<in> set a2" using av by auto
    moreover have "s \<noteq> x" using that xt by auto
    moreover have "s \<notin> set a2"
    proof
      assume "s \<in> set a2"
      then have "position x < position s" using srt by (auto simp add: sorted_wrt_append)
      then show False using that xt by simp
    qed
    ultimately have "s \<in> set a1" by blast
    then have "?mk s \<in> set pre" using p1 by simp
    then have "testScore (?mk s) < testScore ?b" using pre by blast
    then show ?thesis by simp
  qed
  have std: "strategy ?b = Standard"
    if "testCtxOk env Standard" "\<forall>s. edgeScore (scoredData env s) = 0"
  proof (rule ccontr)
    assume "strategy ?b \<noteq> Standard"
    then have "position Standard < position t"
      using tb by (cases t) (simp_all add: position_values)
    from earlier [OF that(1) this] show False using that(2) t by simp
  qed
  show ?thesis
    using sel ok tb t all earlier std by (intro exI [of _ ?b]) auto
qed

lemma edgeScore_edgy: "edgeScore edgy = 1"
  by (simp add: edgeScore_def edgy_def)

lemma edgeScore_flat: "edgeScore flat = 0"
  by (simp add: edgeScore_def flat_def)

lemma selectBest_envTie:
  "selectBest envTie = Inr \<lparr>strategy = HighContrast, image = ''data:image/png;base64,BBBB'', testScore = 1\<rparr>"
  by (simp add: selectBest_def strategyResults_def strategies_def envTie_def edgeScore_edgy edgeScore_flat)

theorem selector_first_maximum_witness:
  "(\<exists>s. testCtxOk envTie s) \<and>
   (\<exists>best. selectBest envTie = Inr best \<and> strategy best = HighContrast \<and>
      (\<forall>s. testCtxOk envTie s \<and> position s < position (strategy best) \<longrightarrow>
                  edgeScore (scoredData envTie s) < testScore best))"
  using selector_first_maximum [of envTie] selectBest_envTie
  by (auto simp add: envTie_def)

text \<open>
  The claim as first stated says that the selector always selects a strategy. A strategy
  whose canvas gives no context is skipped; when all four are skipped there is no result to
  pick, and the function rejects.
\<close>

theorem selector_counterexample:
  "selectBest envNoTestCtx = Inl ''TypeError'' \<and>
   preprocessImage envNoTestCtx = Inl ''TypeError''"
  by (simp add: selectBest_def strategyResults_def strategies_def envNoTestCtx_def envTie_def
      preprocessImage_def getImageData_def detectRotation_def everyTenth_def afterBlur_def Let_def)

subsection \<open>Blur is metadata\<close>

lemma afterBlur_isBlurry:
  "afterBlur env w h rot b = Inr r \<Longrightarrow> isBlurry r = jsLess b (Num 100)"
  by (auto simp add: afterBlur_def Let_def split: sum.splits)

lemma afterBlur_other_outputs:
  "map_sum id (\<lambda>r. r\<lparr>isBlurry := False\<rparr>) (afterBlur env w h rot b) =
   map_sum id (\<lambda>r. r\<lparr>isBlurry := False\<rparr>) (afterBlur env w h rot b')"
  by (simp add: afterBlur_def Let_def split: sum.splits)

lemma preprocessImage_isBlurry:
  assumes "preprocessImage env = Inr r"
  shows "isBlurry r =
     jsLess (detectBlur \<lparr>width = finalWidth r, height = finalHeight r,
                data = (if rotationCorrected r then rotatedData env else drawnData env)\<rparr>)
       (Num 100)"
  using assms
  by (auto simp add: preprocessImage_def getImageData_def afterBlur_def Let_def
      split: if_splits sum.splits)

lemma runOCR_after_preprocess:
  assumes "preprocessImage env = Inr p" "createWorker eng = None"
  shows "Recognized \<in> set (snd (runOCR env eng)) \<and>
         (\<forall>res. fst (runOCR env eng) = Inr res \<longrightarrow> resultIsBlurry res = isBlurry p)"
  using assms
  by (auto simp add: runOCR_def catchBlock_def Let_def split: sum.splits option.splits)

lemma detectRotation_img3: "detectRotation img3 = 0"
  by (simp add: detectRotation_def everyTenth_def img3_def Let_def)


lemma preprocessImage_envTie:
  "preprocessImage envTie =
     Inr \<lparr>bestImage = ''data:image/png;base64,BBBB'',
          fullColorImage = ''data:image/png;base64,AAAA'',
          finalWidth = 3, finalHeight = 3, isBlurry = False, rotationCorrected = False,
          bestStrategy = HighContrast\<rparr>"
proof -
  have i: "\<lparr>width = 3, height = 3, data = data img3\<rparr> = img3" by (simp add: img3_def)
  have b: "detectBlur img3 = Num 10200"
    by code_simp
  show ?thesis
    by (simp add: preprocessImage_def getImageData_def afterBlur_def selectBest_envTie Let_def
        i b detectRotation_img3)
      (simp add: envTie_def i detectRotation_img3 b)
qed

text \<open>The pipeline as one case distinction: the rejections first, then the result.\<close>

lemma preprocessImage_cases:
  "preprocessImage env =
     (if failsWithoutBlur env
      then Inl (if \<not> readOk env then ''Failed to read image file''
                else if \<not> loadOk env then ''Failed to load image''
                else if \<not> ctxOk env then ''Canvas context not available''
                else if newWidth env = 0 \<or> newHeight env = 0 then ''IndexSizeError''
                else if detectRotation (scaledImage env) \<noteq> 0 \<and> \<not> rotatedCtxOk env
                  then ''Could not get rotated canvas context''
                else projl (selectBest env))
      else Inr \<lparr>bestImage = image (projr (selectBest env)),
                fullColorImage = fullColorScaledImage env,
                finalWidth = width (blurInput env), finalHeight = height (blurInput env),
                isBlurry = jsLess (detectBlur (blurInput env)) (Num 100),
                rotationCorrected = (detectRotation (scaledImage env) \<noteq> 0),
                bestStrategy = strategy (projr (selectBest env))\<rparr>)"
  by (cases "selectBest env")
    (auto simp add: preprocessImage_def failsWithoutBlur_def getImageData_def afterBlur_def
      scaledImage_def blurInput_def Let_def)

lemma preprocessImage_isl: "isl (preprocessImage env) \<longleftrightarrow> failsWithoutBlur env"
  by (simp add: preprocessImage_cases)

lemma preprocessImage_flag:
  "preprocessImage env = Inr r \<Longrightarrow> isBlurry r = jsLess (detectBlur (blurInput env)) (Num 100)"
  by (auto simp add: preprocessImage_cases split: if_splits)

lemma selectBest_pixels:
  "selectBest (env\<lparr>drawnData := d1, rotatedData := d2\<rparr>) = selectBest env"
  by (simp add: selectBest_def strategyResults_def strategies_def)

lemma preprocessImage_pixels:
  assumes "detectRotation (scaledImage (env\<lparr>drawnData := d1\<rparr>)) = detectRotation (scaledImage env)"
  shows "map_sum id (\<lambda>r. r\<lparr>isBlurry := False\<rparr>)
           (preprocessImage (env\<lparr>drawnData := d1, rotatedData := d2\<rparr>)) =
         map_sum id (\<lambda>r. r\<lparr>isBlurry := False\<rparr>) (preprocessImage env)"
proof -
  let ?e = "env\<lparr>drawnData := d1, rotatedData := d2\<rparr>"
  have rot: "detectRotation (scaledImage ?e) = detectRotation (scaledImage env)"
    using assms by (simp add: scaledImage_def)
  have f: "failsWithoutBlur ?e = failsWithoutBlur env"
    by (simp add: failsWithoutBlur_def rot selectBest_pixels)
  have wh: "width (blurInput ?e) = width (blurInput env)"
    "height (blurInput ?e) = height (blurInput env)"
    by (simp_all add: blurInput_def rot) (simp_all add: scaledImage_def)
  show ?thesis
    unfolding preprocessImage_cases [of ?e] preprocessImage_cases [of env] f rot wh
      selectBest_pixels
    by simp
qed

lemma runOCR_pixels:
  assumes "detectRotation (scaledImage (env\<lparr>drawnData := d1\<rparr>)) = detectRotation (scaledImage env)"
  shows "map_prod (map_sum id (\<lambda>r. r\<lparr>resultIsBlurry := False\<rparr>)) id
           (runOCR (env\<lparr>drawnData := d1, rotatedData := d2\<rparr>) eng) =
         map_prod (map_sum id (\<lambda>r. r\<lparr>resultIsBlurry := False\<rparr>)) id (runOCR env eng)"
proof -
  let ?e = "env\<lparr>drawnData := d1, rotatedData := d2\<rparr>"
  from preprocessImage_pixels [OF assms, of d2]
  have p: "map_sum id (\<lambda>r. r\<lparr>isBlurry := False\<rparr>) (preprocessImage ?e) =
           map_sum id (\<lambda>r. r\<lparr>isBlurry := False\<rparr>) (preprocessImage env)" .
  show ?thesis
  proof (cases "preprocessImage env")
    case (Inl e)
    with p obtain e' where "preprocessImage ?e = Inl e'" by (cases "preprocessImage ?e") auto
    with Inl show ?thesis by (simp add: runOCR_def split: option.splits)
  next
    case (Inr r)
    with p obtain r' where r': "preprocessImage ?e = Inr r'"
      "r'\<lparr>isBlurry := False\<rparr> = r\<lparr>isBlurry := False\<rparr>"
      by (cases "preprocessImage ?e") auto
    from r'(2) have eqs: "bestImage r' = bestImage r" "fullColorImage r' = fullColorImage r"
      "finalWidth r' = finalWidth r" "finalHeight r' = finalHeight r"
      "rotationCorrected r' = rotationCorrected r" "bestStrategy r' = bestStrategy r"
      by (cases r, cases r', simp)+
    show ?thesis using Inr r'(1) eqs
      by (simp add: runOCR_def Let_def split: option.splits sum.splits)
  qed
qed

lemma runOCR_success:
  assumes "preprocessImage env = Inr p" "createWorker eng = None" "\<not> isl (recognize eng)"
    "terminateFirst eng = None"
  shows "\<exists>res. fst (runOCR env eng) = Inr res \<and> resultIsBlurry res = isBlurry p"
  using assms
  by (auto simp add: runOCR_def Let_def isl_def split: sum.splits option.splits)

lemma score_forty:
  assumes "\<not> failsWithoutBlur env" "detectBlur (blurInput env) = Num 40"
  shows "(\<exists>r. preprocessImage env = Inr r \<and> isBlurry r) \<and>
         (createWorker eng = None \<longrightarrow> Recognized \<in> set (snd (runOCR env eng))) \<and>
         (createWorker eng = None \<and> \<not> isl (recognize eng) \<and> terminateFirst eng = None \<longrightarrow>
            (\<exists>res. fst (runOCR env eng) = Inr res \<and> resultIsBlurry res))"
proof -
  from assms(1) obtain r where r: "preprocessImage env = Inr r"
    using preprocessImage_isl [of env] by (cases "preprocessImage env") auto
  have b: "isBlurry r" using preprocessImage_flag [OF r] assms(2) by simp
  show ?thesis using r b runOCR_after_preprocess [OF r] runOCR_success [OF r] by auto
qed

lemma detectRotation_three:
  "detectRotation \<lparr>width = 3, height = 3, data = d\<rparr> = 0"
  by (simp add: detectRotation_def everyTenth_def Let_def)

lemma detectBlur_imgBlurry: "detectBlur imgBlurry = Num 40"
  by code_simp

lemma blurInput_envBlurry: "blurInput envBlurry = imgBlurry"
  by (simp add: blurInput_def scaledImage_def envBlurry_def envTie_def detectRotation_three
      imgBlurry_def)

lemma runs_ok:
  "\<not> failsWithoutBlur envBlurry" "\<not> failsWithoutBlur envTie"
proof -
  have t: "\<not> isl (selectBest envTie)" by (simp add: selectBest_envTie)
  have "selectBest envBlurry = selectBest envTie"
    by (simp add: envBlurry_def selectBest_def strategyResults_def strategies_def)
  then have b: "\<not> isl (selectBest envBlurry)" using t by simp
  show "\<not> failsWithoutBlur envTie"
    using t by (simp add: failsWithoutBlur_def scaledImage_def) (simp add: envTie_def detectRotation_three)
  show "\<not> failsWithoutBlur envBlurry"
    using b by (simp add: failsWithoutBlur_def scaledImage_def)
      (simp add: envBlurry_def envTie_def detectRotation_three)
qed

text \<open>
  Claim C7. \<open>isBlurry\<close> is set exactly when the blur score is below 100, and the score is
  used for nothing else. \<open>preprocessImage\<close> rejects exactly when a file, canvas or strategy step
  fails, none of which reads the score; on success \<open>isBlurry\<close> is the comparison of the
  score of the scaled (and, if rotated, redrawn) image with 100. A run whose score is 40
  and in which no such step fails therefore succeeds with \<open>isBlurry = true\<close>, and \<open>runOCR\<close>
  goes on to recognition and, when the engine succeeds, returns a result carrying the flag.
  Replacing the pixels the score is computed from, the rotation decision being unchanged,
  changes nothing in the outcome of \<open>preprocessImage\<close> or of \<open>runOCR\<close> but that flag. Inside
  the pipeline, the steps after the score behave for a score of 40 as for any other score.
\<close>

theorem blur_never_gates:
  "(\<forall>r. preprocessImage env = Inr r \<longrightarrow>
        isBlurry r =
          jsLess (detectBlur \<lparr>width = finalWidth r, height = finalHeight r,
                     data = (if rotationCorrected r then rotatedData env else drawnData env)\<rparr>)
            (Num 100)) \<and>
   (\<forall>r. afterBlur env w h rot b = Inr r \<longrightarrow> isBlurry r = jsLess b (Num 100)) \<and>
   map_sum id (\<lambda>r. r\<lparr>isBlurry := False\<rparr>) (afterBlur env w h rot (Num 40)) =
     map_sum id (\<lambda>r. r\<lparr>isBlurry := False\<rparr>) (afterBlur env w h rot b) \<and>
   (\<forall>r. afterBlur env w h rot b = Inr r \<longrightarrow>
        afterBlur env w h rot (Num 40) = Inr (r\<lparr>isBlurry := True\<rparr>)) \<and>
   (\<forall>p. preprocessImage env = Inr p \<and> createWorker eng = None \<longrightarrow>
        Recognized \<in> set (snd (runOCR env eng)) \<and>
        (\<forall>res. fst (runOCR env eng) = Inr res \<longrightarrow> resultIsBlurry res = isBlurry p)) \<and>
   (isl (preprocessImage env) \<longleftrightarrow> failsWithoutBlur env) \<and>
   (\<forall>r. preprocessImage env = Inr r \<longrightarrow>
        isBlurry r = jsLess (detectBlur (blurInput env)) (Num 100)) \<and>
   (\<not> failsWithoutBlur env \<and> detectBlur (blurInput env) = Num 40 \<longrightarrow>
        (\<exists>r. preprocessImage env = Inr r \<and> isBlurry r) \<and>
        (createWorker eng = None \<longrightarrow> Recognized \<in> set (snd (runOCR env eng))) \<and>
        (createWorker eng = None \<and> \<not> isl (recognize eng) \<and> terminateFirst eng = None \<longrightarrow>
           (\<exists>res. fst (runOCR env eng) = Inr res \<and> resultIsBlurry res))) \<and>
   (detectRotation (scaledImage (env\<lparr>drawnData := d1\<rparr>)) = detectRotation (scaledImage env) \<longrightarrow>
        map_sum id (\<lambda>r. r\<lparr>isBlurry := False\<rparr>)
          (preprocessImage (env\<lparr>drawnData := d1, rotatedData := d2\<rparr>)) =
        map_sum id (\<lambda>r. r\<lparr>isBlurry := False\<rparr>) (preprocessImage env) \<and>
        map_prod (map_sum id (\<lambda>r. r\<lparr>resultIsBlurry := False\<rparr>)) id
          (runOCR (env\<lparr>drawnData := d1, rotatedData := d2\<rparr>) eng) =
        map_prod (map_sum id (\<lambda>r. r\<lparr>resultIsBlurry := False\<rparr>)) id (runOCR env eng))"
proof -
  have c1: "\<forall>r. preprocessImage env = Inr r \<longrightarrow>
        isBlurry r =
          jsLess (detectBlur \<lparr>width = finalWidth r, height = finalHeight r,
                     data = (if rotationCorrected r then rotatedData env else drawnData env)\<rparr>)
            (Num 100)"
    using preprocessImage_isBlurry by blast
  have c2: "\<forall>r. afterBlur env w h rot b = Inr r \<longrightarrow> isBlurry r = jsLess b (Num 100)"
    using afterBlur_isBlurry by blast
  have c3: "map_sum id (\<lambda>r. r\<lparr>isBlurry := False\<rparr>) (afterBlur env w h rot (Num 40)) =
     map_sum id (\<lambda>r. r\<lparr>isBlurry := False\<rparr>) (afterBlur env w h rot b)"
    by (rule afterBlur_other_outputs)
  have c4: "\<forall>r. afterBlur env w h rot b = Inr r \<longrightarrow>
        afterBlur env w h rot (Num 40) = Inr (r\<lparr>isBlurry := True\<rparr>)"
    by (auto simp add: afterBlur_def Let_def split: sum.splits)
  have c5: "\<forall>p. preprocessImage env = Inr p \<and> createWorker eng = None \<longrightarrow>
        Recognized \<in> set (snd (runOCR env eng)) \<and>
        (\<forall>res. fst (runOCR env eng) = Inr res \<longrightarrow> resultIsBlurry res = isBlurry p)"
    using runOCR_after_preprocess by blast
  have c6: "isl (preprocessImage env) \<longleftrightarrow> failsWithoutBlur env"
    by (rule preprocessImage_isl)
  have c7: "\<forall>r. preprocessImage env = Inr r \<longrightarrow>
        isBlurry r = jsLess (detectBlur (blurInput env)) (Num 100)"
    using preprocessImage_flag by blast
  have c8: "\<not> failsWithoutBlur env \<and> detectBlur (blurInput env) = Num 40 \<longrightarrow>
        (\<exists>r. preprocessImage env = Inr r \<and> isBlurry r) \<and>
        (createWorker eng = None \<longrightarrow> Recognized \<in> set (snd (runOCR env eng))) \<and>
        (createWorker eng = None \<and> \<not> isl (recognize eng) \<and> terminateFirst eng = None \<longrightarrow>
           (\<exists>res. fst (runOCR env eng) = Inr res \<and> resultIsBlurry res))"
    using score_forty [of env eng] by blast
  have c9: "detectRotation (scaledImage (env\<lparr>drawnData := d1\<rparr>)) = detectRotation (scaledImage env) \<longrightarrow>
        map_sum id (\<lambda>r. r\<lparr>isBlurry := False\<rparr>)
          (preprocessImage (env\<lparr>drawnData := d1, rotatedData := d2\<rparr>)) =
        map_sum id (\<lambda>r. r\<lparr>isBlurry := False\<rparr>) (preprocessImage env) \<and>
        map_prod (map_sum id (\<lambda>r. r\<lparr>resultIsBlurry := False\<rparr>)) id
          (runOCR (env\<lparr>drawnData := d1, rotatedData := d2\<rparr>) eng) =
        map_prod (map_sum id (\<lambda>r. r\<lparr>resultIsBlurry := False\<rparr>)) id (runOCR env eng)"
    using preprocessImage_pixels [where env = env and ?d1.0 = d1 and ?d2.0 = d2]
      runOCR_pixels [where env = env and ?d1.0 = d1 and ?d2.0 = d2 and eng = eng] by simp
  from c1 c2 c3 c4 c5 c6 c7 c8 c9 show ?thesis by (intro conjI)
qed

theorem blur_never_gates_witness:
  "\<not> failsWithoutBlur envBlurry \<and> detectBlur (blurInput envBlurry) = Num 40 \<and>
   (\<exists>r. preprocessImage envBlurry = Inr r \<and> isBlurry r) \<and>
   createWorker engOk = None \<and> \<not> isl (recognize engOk) \<and> terminateFirst engOk = None \<and>
   Recognized \<in> set (snd (runOCR envBlurry engOk)) \<and>
   (\<exists>res. fst (runOCR envBlurry engOk) = Inr res \<and> resultIsBlurry res) \<and>
   detectRotation (scaledImage (envTie\<lparr>drawnData := data imgBlurry\<rparr>)) =
     detectRotation (scaledImage envTie) \<and>
   map_sum id (\<lambda>r. r\<lparr>isBlurry := False\<rparr>)
     (preprocessImage (envTie\<lparr>drawnData := data imgBlurry, rotatedData := []\<rparr>)) =
   map_sum id (\<lambda>r. r\<lparr>isBlurry := False\<rparr>) (preprocessImage envTie) \<and>
   \<not> isl (preprocessImage envTie) \<and>
   (\<exists>r. afterBlur envTie 3 3 False (Num 10200) = Inr r \<and> \<not> isBlurry r \<and>
        afterBlur envTie 3 3 False (Num 40) = Inr (r\<lparr>isBlurry := True\<rparr>))"
proof -
  note b = blur_never_gates [where env = envBlurry and w = 3 and h = 3 and rot = False
      and b = "Num 40" and eng = engOk and ?d1.0 = "data imgBlurry" and ?d2.0 = "[]"]
  note s = blur_never_gates [where env = envTie and w = 3 and h = 3 and rot = False
      and b = "Num 40" and eng = engOk and ?d1.0 = "data imgBlurry" and ?d2.0 = "[]"]
  note b8 = b [THEN conjunct2, THEN conjunct2, THEN conjunct2, THEN conjunct2, THEN conjunct2,
      THEN conjunct2, THEN conjunct2, THEN conjunct1]
  note s6 = s [THEN conjunct2, THEN conjunct2, THEN conjunct2, THEN conjunct2, THEN conjunct2,
      THEN conjunct1]
  note s9 = s [THEN conjunct2, THEN conjunct2, THEN conjunct2, THEN conjunct2, THEN conjunct2,
      THEN conjunct2, THEN conjunct2, THEN conjunct2]
  have h1: "\<not> failsWithoutBlur envBlurry \<and> detectBlur (blurInput envBlurry) = Num 40"
    using runs_ok by (simp add: blurInput_envBlurry detectBlur_imgBlurry)
  have e: "createWorker engOk = None \<and> \<not> isl (recognize engOk) \<and> terminateFirst engOk = None"
    by (simp add: engOk_def)
  have h2: "detectRotation (scaledImage (envTie\<lparr>drawnData := data imgBlurry\<rparr>)) =
     detectRotation (scaledImage envTie)"
    by (simp add: scaledImage_def envTie_def detectRotation_three)
  have forty: "(\<exists>r. preprocessImage envBlurry = Inr r \<and> isBlurry r) \<and>
        (createWorker engOk = None \<longrightarrow> Recognized \<in> set (snd (runOCR envBlurry engOk))) \<and>
        (createWorker engOk = None \<and> \<not> isl (recognize engOk) \<and> terminateFirst engOk = None \<longrightarrow>
           (\<exists>res. fst (runOCR envBlurry engOk) = Inr res \<and> resultIsBlurry res))"
    using b8 h1 by (rule mp)
  have same: "map_sum id (\<lambda>r. r\<lparr>isBlurry := False\<rparr>)
     (preprocessImage (envTie\<lparr>drawnData := data imgBlurry, rotatedData := []\<rparr>)) =
   map_sum id (\<lambda>r. r\<lparr>isBlurry := False\<rparr>) (preprocessImage envTie)"
    using s9 [THEN mp, OF h2] by (rule conjunct1)
  have ok: "\<not> isl (preprocessImage envTie)"
    using s6 runs_ok(2) by simp
  from forty e have rec: "Recognized \<in> set (snd (runOCR envBlurry engOk))"
    and res: "\<exists>res. fst (runOCR envBlurry engOk) = Inr res \<and> resultIsBlurry res"
    and pre: "\<exists>r. preprocessImage envBlurry = Inr r \<and> isBlurry r"
    by simp_all
  from h1 e have a1: "\<not> failsWithoutBlur envBlurry"
    and a2: "detectBlur (blurInput envBlurry) = Num 40"
    and a3: "createWorker engOk = None" and a4: "\<not> isl (recognize engOk)"
    and a5: "terminateFirst engOk = None" by simp_all
  note t = blur_never_gates [where env = envTie and w = 3 and h = 3 and rot = False
      and b = "Num 10200" and eng = engOk and ?d1.0 = "data imgBlurry" and ?d2.0 = "[]"]
  note t2 = t [THEN conjunct2, THEN conjunct1]
  note t4 = t [THEN conjunct2, THEN conjunct2, THEN conjunct2, THEN conjunct1]
  obtain r where r: "afterBlur envTie 3 3 False (Num 10200) = Inr r"
    by (simp add: afterBlur_def selectBest_envTie Let_def)
  have "isBlurry r = jsLess (Num 10200) (Num 100)" using t2 r by blast
  then have n: "\<not> isBlurry r" by simp
  have "afterBlur envTie 3 3 False (Num 40) = Inr (r\<lparr>isBlurry := True\<rparr>)"
    using t4 r by blast
  then have sharp: "\<exists>r. afterBlur envTie 3 3 False (Num 10200) = Inr r \<and> \<not> isBlurry r \<and>
        afterBlur envTie 3 3 False (Num 40) = Inr (r\<lparr>isBlurry := True\<rparr>)"
    using r n by blast
  show ?thesis using a1 a2 pre a3 a4 a5 rec res h2 same ok sharp by (intro conjI)
qed

subsection \<open>Engine lifetime\<close>

text \<open>
  Claim C8, as amended. Every run of \<open>runOCR\<close> in which the worker was created calls
  \<open>terminate\<close> on it before it returns or throws. When \<open>terminate\<close> resolves, a failure of
  preprocessing or of recognition reaches the caller as the one error
  "Failed to extract text from image", and a run without failure returns a result after
  the calls create, recognize, terminate. When \<open>createWorker\<close> itself rejects, its error
  reaches the caller unchanged, and no call is made on a worker.
\<close>

theorem runOCR_releases_worker:
  "(createWorker eng = None \<longrightarrow> Terminated \<in> set (snd (runOCR env eng))) \<and>
   (createWorker eng = None \<and> terminateFirst eng = None \<and>
      (isl (preprocessImage env) \<or> isl (recognize eng)) \<longrightarrow>
        fst (runOCR env eng) = Inl ''Failed to extract text from image'') \<and>
   (createWorker eng = None \<and> terminateFirst eng = None \<and>
      \<not> isl (preprocessImage env) \<and> \<not> isl (recognize eng) \<longrightarrow>
        (\<exists>res. fst (runOCR env eng) = Inr res) \<and>
        snd (runOCR env eng) = [Created, Recognized, Terminated]) \<and>
   (\<forall>e. createWorker eng = Some e \<longrightarrow> runOCR env eng = (Inl e, []))"
  by (auto simp add: runOCR_def catchBlock_def nextTerminate_def Let_def isl_def
      split: sum.splits option.splits)

theorem runOCR_releases_worker_witness:
  "createWorker engNoRecognize = None \<and> terminateFirst engNoRecognize = None \<and>
   isl (recognize engNoRecognize) \<and>
   Terminated \<in> set (snd (runOCR envTie engNoRecognize)) \<and>
   fst (runOCR envTie engNoRecognize) = Inl ''Failed to extract text from image'' \<and>
   createWorker engNoWorker = Some ''NetworkError: failed to load language data'' \<and>
   runOCR envTie engNoWorker = (Inl ''NetworkError: failed to load language data'', [])"
  using runOCR_releases_worker [of engNoRecognize envTie]
    runOCR_releases_worker [of engNoWorker envTie]
  by (simp add: engNoRecognize_def engNoWorker_def engOk_def)

text \<open>
  The claim as first stated gives every failing run the same message. A run whose worker
  cannot be created fails with the error of \<open>createWorker\<close>; and the message thrown by the
  \<open>catch\<close> block is spelled with a capital F.
\<close>

theorem runOCR_counterexample:
  "fst (runOCR envTie engNoWorker) = Inl ''NetworkError: failed to load language data'' \<and>
   snd (runOCR envTie engNoWorker) = [] \<and>
   fst (runOCR envTie engNoWorker) \<noteq> Inl ''failed to extract text from image'' \<and>
   fst (runOCR envTie engNoRecognize) \<noteq> Inl ''failed to extract text from image''"
  by (simp add: runOCR_def engNoWorker_def engNoRecognize_def engOk_def preprocessImage_envTie
      catchBlock_def nextTerminate_def)

subsection \<open>Pattern lists\<close>

lemma firstMatch_index:
  "i < length ps \<Longrightarrow> jsMatch (ps ! i) text = Some m \<Longrightarrow>
   \<forall>j<i. jsMatch (ps ! j) text = None \<Longrightarrow> firstMatch ps text = Some m"
proof (induction ps arbitrary: i)
  case Nil
  then show ?case by simp
next
  case (Cons p ps)
  show ?case
  proof (cases i)
    case 0
    then show ?thesis using Cons.prems by simp
  next
    case (Suc k)
    have "jsMatch p text = None" using Cons.prems(3) Suc by auto
    moreover have "firstMatch ps text = Some m"
    proof (rule Cons.IH)
      show "k < length ps" using Cons.prems(1) Suc by simp
      show "jsMatch (ps ! k) text = Some m" using Cons.prems(2) Suc by simp
      show "\<forall>j<k. jsMatch (ps ! j) text = None"
        using Cons.prems(3) Suc by auto
    qed
    ultimately show ?thesis by simp
  qed
qed

lemma dosageLoop_firstMatch:
  "dosageLoop ps text st =
     (case firstMatch ps text of
        None \<Rightarrow> st
      | Some m \<Rightarrow> ((fst st)\<lparr>dosage := Some (dosageText text m)\<rparr>, Some m))"
  by (induction ps) (simp_all split: option.splits)

lemma frequencyLoop_firstMatch:
  "frequencyLoop ps text med =
     (case firstMatch ps text of
        None \<Rightarrow> med
      | Some m \<Rightarrow> med\<lparr>frequency := Some (jsTrim (match0 text m))\<rparr>)"
  by (induction ps) (simp_all split: option.splits)

lemma routeLoop_firstMatch:
  "routeLoop ps text med =
     (case firstMatch ps text of
        None \<Rightarrow> med
      | Some m \<Rightarrow> med\<lparr>route := Some (routeText text m)\<rparr>)"
  by (induction ps) (simp_all split: option.splits)

lemma prescriberLoop_firstMatch:
  "prescriberLoop ps text med =
     (case firstMatch ps text of
        None \<Rightarrow> med
      | Some m \<Rightarrow> med\<lparr>prescriber := Some (jsTrim (match0 text m))\<rparr>)"
  by (induction ps) (simp_all split: option.splits)

text \<open>The name strategies touch no field but the name.\<close>

lemma nameMixedCase_frame:
  "dosage (nameMixedCase text med) = dosage med"
  "frequency (nameMixedCase text med) = frequency med"
  "route (nameMixedCase text med) = route med"
  "prescriber (nameMixedCase text med) = prescriber med"
  "quantity (nameMixedCase text med) = quantity med"
  "refills (nameMixedCase text med) = refills med"
  "instructions (nameMixedCase text med) = instructions med"
  by (simp_all add: nameMixedCase_def Let_def split: option.splits)

lemma nameBeforeDosage_frame:
  "dosage (nameBeforeDosage text dm med) = dosage med"
  "frequency (nameBeforeDosage text dm med) = frequency med"
  "route (nameBeforeDosage text dm med) = route med"
  "prescriber (nameBeforeDosage text dm med) = prescriber med"
  "quantity (nameBeforeDosage text dm med) = quantity med"
  "refills (nameBeforeDosage text dm med) = refills med"
  "instructions (nameBeforeDosage text dm med) = instructions med"
  by (simp_all add: nameBeforeDosage_def Let_def split: option.splits)

lemma nameFromLine_frame:
  "dosage (nameFromLine text med) = dosage med"
  "frequency (nameFromLine text med) = frequency med"
  "route (nameFromLine text med) = route med"
  "prescriber (nameFromLine text med) = prescriber med"
  "quantity (nameFromLine text med) = quantity med"
  "refills (nameFromLine text med) = refills med"
  "instructions (nameFromLine text med) = instructions med"
  by (simp_all add: nameFromLine_def Let_def split: option.splits)

lemma nameCommonlyKnown_frame:
  "dosage (nameCommonlyKnown text med) = dosage med"
  "frequency (nameCommonlyKnown text med) = frequency med"
  "route (nameCommonlyKnown text med) = route med"
  "prescriber (nameCommonlyKnown text med) = prescriber med"
  "quantity (nameCommonlyKnown text med) = quantity med"
  "refills (nameCommonlyKnown text med) = refills med"
  "instructions (nameCommonlyKnown text med) = instructions med"
  by (simp_all add: nameCommonlyKnown_def Let_def split: option.splits)

lemmas name_frames = nameMixedCase_frame nameBeforeDosage_frame nameFromLine_frame
  nameCommonlyKnown_frame

text \<open>A later name strategy leaves a name that is set alone.\<close>

lemma name_kept:
  "truthy (name med) \<Longrightarrow> nameBeforeDosage text dm med = med"
  "truthy (name med) \<Longrightarrow> nameFromLine text med = med"
  "truthy (name med) \<Longrightarrow> nameCommonlyKnown text med = med"
  by (simp_all add: nameBeforeDosage_def nameFromLine_def nameCommonlyKnown_def)

text \<open>The record after the passes over the fields other than the name.\<close>

lemma parse_phases:
  "\<exists>m0 dm. name m0 = None \<and>
     dosage m0 = map_option (dosageText text) (firstMatch dosagePatterns text) \<and>
     frequency m0 = map_option (\<lambda>m. jsTrim (match0 text m)) (firstMatch frequencyPatterns text) \<and>
     route m0 = map_option (routeText text) (firstMatch routePatterns text) \<and>
     prescriber m0 = map_option (\<lambda>m. jsTrim (match0 text m)) (firstMatch prescriberPatterns text) \<and>
     quantity m0 = (case jsMatch quantityRe text of None \<Rightarrow> None | Some m \<Rightarrow> group text m 1) \<and>
     refills m0 = (case jsMatch refillsRe text of None \<Rightarrow> None | Some m \<Rightarrow> group text m 1) \<and>
     instructions m0 = map_option (\<lambda>m. jsTrim (match0 text m)) (jsMatch instructionRe text) \<and>
     parseMedicationFromText text =
       nameCommonlyKnown text (nameFromLine text (nameBeforeDosage text dm
         (nameMixedCase text m0)))"
proof -
  define a where "a = fst (dosageLoop dosagePatterns text (emptyMed, None))"
  define dm where "dm = snd (dosageLoop dosagePatterns text (emptyMed, None))"
  define b where "b = frequencyLoop frequencyPatterns text a"
  define c where "c = routeLoop routePatterns text b"
  define d where "d = prescriberLoop prescriberPatterns text c"
  define e where "e = quantityStep text d"
  define f where "f = refillsStep text e"
  define g where "g = instructionsStep text f"
  have a: "a = (case firstMatch dosagePatterns text of
                  None \<Rightarrow> emptyMed
                | Some m \<Rightarrow> emptyMed\<lparr>dosage := Some (dosageText text m)\<rparr>)"
    by (simp add: a_def dosageLoop_firstMatch split: option.splits)
  have b: "b = (case firstMatch frequencyPatterns text of
                  None \<Rightarrow> a
                | Some m \<Rightarrow> a\<lparr>frequency := Some (jsTrim (match0 text m))\<rparr>)"
    by (simp add: b_def frequencyLoop_firstMatch)
  have c: "c = (case firstMatch routePatterns text of
                  None \<Rightarrow> b
                | Some m \<Rightarrow> b\<lparr>route := Some (routeText text m)\<rparr>)"
    by (simp add: c_def routeLoop_firstMatch)
  have d: "d = (case firstMatch prescriberPatterns text of
                  None \<Rightarrow> c
                | Some m \<Rightarrow> c\<lparr>prescriber := Some (jsTrim (match0 text m))\<rparr>)"
    by (simp add: d_def prescriberLoop_firstMatch)
  have an: "name a = None \<and> frequency a = None \<and> route a = None \<and> prescriber a = None \<and>
            quantity a = None \<and> refills a = None \<and> instructions a = None \<and>
            dosage a = map_option (dosageText text) (firstMatch dosagePatterns text)"
    by (simp add: a emptyMed_def split: option.splits)
  have bn: "name b = None \<and> route b = None \<and> prescriber b = None \<and>
            quantity b = None \<and> refills b = None \<and> instructions b = None \<and>
            dosage b = dosage a \<and>
            frequency b = map_option (\<lambda>m. jsTrim (match0 text m))
                            (firstMatch frequencyPatterns text)"
    using an by (simp add: b split: option.splits)
  have cn: "name c = None \<and> prescriber c = None \<and>
            quantity c = None \<and> refills c = None \<and> instructions c = None \<and>
            dosage c = dosage a \<and> frequency c = frequency b \<and>
            route c = map_option (routeText text) (firstMatch routePatterns text)"
    using bn by (simp add: c split: option.splits)
  have dn: "name d = None \<and>
            quantity d = None \<and> refills d = None \<and> instructions d = None \<and>
            dosage d = dosage a \<and> frequency d = frequency b \<and> route d = route c \<and>
            prescriber d = map_option (\<lambda>m. jsTrim (match0 text m))
                            (firstMatch prescriberPatterns text)"
    using cn by (simp add: d split: option.splits)
  have en: "name e = None \<and> refills e = None \<and> instructions e = None \<and>
            dosage e = dosage a \<and> frequency e = frequency b \<and> route e = route c \<and>
            prescriber e = prescriber d \<and>
            quantity e = (case jsMatch quantityRe text of
                            None \<Rightarrow> None | Some m \<Rightarrow> group text m 1)"
    using dn by (simp add: e_def quantityStep_def split: option.splits)
  have fn: "name f = None \<and> instructions f = None \<and>
            dosage f = dosage a \<and> frequency f = frequency b \<and> route f = route c \<and>
            prescriber f = prescriber d \<and> quantity f = quantity e \<and>
            refills f = (case jsMatch refillsRe text of
                           None \<Rightarrow> None | Some m \<Rightarrow> group text m 1)"
    using en by (simp add: f_def refillsStep_def split: option.splits)
  have gn: "name g = None \<and>
            dosage g = dosage a \<and> frequency g = frequency b \<and> route g = route c \<and>
            prescriber g = prescriber d \<and> quantity g = quantity e \<and> refills g = refills f \<and>
            instructions g = map_option (\<lambda>m. jsTrim (match0 text m))
                               (jsMatch instructionRe text)"
    using fn by (simp add: g_def instructionsStep_def split: option.splits)
  have "parseMedicationFromText text =
       nameCommonlyKnown text (nameFromLine text (nameBeforeDosage text dm
         (nameMixedCase text g)))"
    by (simp add: parseMedicationFromText_def Let_def case_prod_beta a_def b_def c_def d_def
        e_def f_def g_def dm_def)
  then show ?thesis using an bn cn dn en fn gn by (intro exI [of _ g] exI [of _ dm]) simp
qed

text \<open>
  Claim C4. For every text and every field that \<open>parseMedicationFromText\<close> extracts: when a
  pattern of a field's list matches and no earlier pattern of the list does, the field has
  the value taken from that match, whatever the later patterns of the list would match
  (dosage, frequency, route, prescriber); quantity, refills and instructions have one pattern
  each and carry its value; no later step changes any of these fields. The first name
  strategy runs on a record whose name is unset, and each of the three later strategies
  leaves a record whose name is set as it is.
\<close>

theorem first_match_wins:
  "(kd < length dosagePatterns \<and> jsMatch (dosagePatterns ! kd) doc = Some md \<and>
      (\<forall>j<kd. jsMatch (dosagePatterns ! j) doc = None) \<longrightarrow>
        dosage (parseMedicationFromText doc) = Some (dosageText doc md)) \<and>
   (kf < length frequencyPatterns \<and> jsMatch (frequencyPatterns ! kf) doc = Some mf \<and>
      (\<forall>j<kf. jsMatch (frequencyPatterns ! j) doc = None) \<longrightarrow>
        frequency (parseMedicationFromText doc) = Some (jsTrim (match0 doc mf))) \<and>
   (kr < length routePatterns \<and> jsMatch (routePatterns ! kr) doc = Some mr \<and>
      (\<forall>j<kr. jsMatch (routePatterns ! j) doc = None) \<longrightarrow>
        route (parseMedicationFromText doc) = Some (routeText doc mr)) \<and>
   (kp < length prescriberPatterns \<and> jsMatch (prescriberPatterns ! kp) doc = Some mp \<and>
      (\<forall>j<kp. jsMatch (prescriberPatterns ! j) doc = None) \<longrightarrow>
        prescriber (parseMedicationFromText doc) = Some (jsTrim (match0 doc mp))) \<and>
   quantity (parseMedicationFromText doc) =
     (case jsMatch quantityRe doc of None \<Rightarrow> None | Some m \<Rightarrow> group doc m 1) \<and>
   refills (parseMedicationFromText doc) =
     (case jsMatch refillsRe doc of None \<Rightarrow> None | Some m \<Rightarrow> group doc m 1) \<and>
   instructions (parseMedicationFromText doc) =
     map_option (\<lambda>m. jsTrim (match0 doc m)) (jsMatch instructionRe doc) \<and>
   (\<exists>m0 dm0. name m0 = None \<and>
      parseMedicationFromText doc =
        nameCommonlyKnown doc (nameFromLine doc (nameBeforeDosage doc dm0
          (nameMixedCase doc m0)))) \<and>
   (truthy (name med) \<longrightarrow>
      nameBeforeDosage doc dmx med = med \<and> nameFromLine doc med = med \<and>
      nameCommonlyKnown doc med = med)"
proof -
  from parse_phases [of doc] obtain m0 dm0 where
    n0: "name m0 = None"
    and d: "dosage m0 = map_option (dosageText doc) (firstMatch dosagePatterns doc)"
    and f: "frequency m0 =
              map_option (\<lambda>m. jsTrim (match0 doc m)) (firstMatch frequencyPatterns doc)"
    and r: "route m0 = map_option (routeText doc) (firstMatch routePatterns doc)"
    and p: "prescriber m0 =
              map_option (\<lambda>m. jsTrim (match0 doc m)) (firstMatch prescriberPatterns doc)"
    and q: "quantity m0 =
              (case jsMatch quantityRe doc of None \<Rightarrow> None | Some m \<Rightarrow> group doc m 1)"
    and rf: "refills m0 =
              (case jsMatch refillsRe doc of None \<Rightarrow> None | Some m \<Rightarrow> group doc m 1)"
    and ins: "instructions m0 =
              map_option (\<lambda>m. jsTrim (match0 doc m)) (jsMatch instructionRe doc)"
    and parse: "parseMedicationFromText doc =
       nameCommonlyKnown doc (nameFromLine doc (nameBeforeDosage doc dm0
         (nameMixedCase doc m0)))"
    by blast
  have c1: "dosage (parseMedicationFromText doc) = Some (dosageText doc md)"
    if "kd < length dosagePatterns \<and> jsMatch (dosagePatterns ! kd) doc = Some md \<and>
      (\<forall>j<kd. jsMatch (dosagePatterns ! j) doc = None)"
    using firstMatch_index [of kd dosagePatterns doc md] that
    by (simp add: parse name_frames d)
  have c2: "frequency (parseMedicationFromText doc) = Some (jsTrim (match0 doc mf))"
    if "kf < length frequencyPatterns \<and> jsMatch (frequencyPatterns ! kf) doc = Some mf \<and>
      (\<forall>j<kf. jsMatch (frequencyPatterns ! j) doc = None)"
    using firstMatch_index [of kf frequencyPatterns doc mf] that
    by (simp add: parse name_frames f)
  have c3: "route (parseMedicationFromText doc) = Some (routeText doc mr)"
    if "kr < length routePatterns \<and> jsMatch (routePatterns ! kr) doc = Some mr \<and>
      (\<forall>j<kr. jsMatch (routePatterns ! j) doc = None)"
    using firstMatch_index [of kr routePatterns doc mr] that
    by (simp add: parse name_frames r)
  have c4: "prescriber (parseMedicationFromText doc) = Some (jsTrim (match0 doc mp))"
    if "kp < length prescriberPatterns \<and> jsMatch (prescriberPatterns ! kp) doc = Some mp \<and>
      (\<forall>j<kp. jsMatch (prescriberPatterns ! j) doc = None)"
    using firstMatch_index [of kp prescriberPatterns doc mp] that
    by (simp add: parse name_frames p)
  have c5: "quantity (parseMedicationFromText doc) =
     (case jsMatch quantityRe doc of None \<Rightarrow> None | Some m \<Rightarrow> group doc m 1)"
    by (simp add: parse name_frames q)
  have c6: "refills (parseMedicationFromText doc) =
     (case jsMatch refillsRe doc of None \<Rightarrow> None | Some m \<Rightarrow> group doc m 1)"
    by (simp add: parse name_frames rf)
  have c7: "instructions (parseMedicationFromText doc) =
     map_option (\<lambda>m. jsTrim (match0 doc m)) (jsMatch instructionRe doc)"
    by (simp add: parse name_frames ins)
  have c8: "\<exists>m0 dm0. name m0 = None \<and>
      parseMedicationFromText doc =
        nameCommonlyKnown doc (nameFromLine doc (nameBeforeDosage doc dm0
          (nameMixedCase doc m0)))"
    using n0 parse by blast
  show ?thesis using c1 c2 c3 c4 c5 c6 c7 c8 name_kept by blast
qed

subsection \<open>Sections of a numbered list\<close>

lemma mt_Cls_elim:
  assumes "y \<in> set (mt (Cls P) n st)"
  shows "\<exists>c cs. rest st = c # cs \<and> P c \<and> y = MState (Some c) cs (Suc (pos st)) (caps st)"
proof (cases "rest st")
  case Nil
  then show ?thesis using assms by simp
next
  case (Cons c cs)
  then show ?thesis using assms by (cases "P c") simp_all
qed

lemma mt_Seq_elim:
  assumes "y \<in> set (mt (Seq a b) n st)"
  shows "\<exists>z\<in>set (mt a n st). y \<in> set (mt b n z)"
  using assms by auto

text \<open>Stepping over the characters of a delimiter.\<close>

lemma splitFrom_skip:
  "k \<le> length xs \<Longrightarrow> 0 < k \<Longrightarrow>
   splitFrom r n p xs i k cur =
     splitFrom r n (Some (xs ! (k - 1))) (drop k xs) (i + k) 0 cur"
proof (induction xs arbitrary: p i k)
  case Nil
  then show ?case by simp
next
  case (Cons x xs)
  show ?case
  proof (cases "k = 1")
    case True
    then show ?thesis by simp
  next
    case False
    with Cons.prems have k: "k - 1 \<le> length xs" "0 < k - 1" by simp_all
    have "splitFrom r n p (x # xs) i k cur = splitFrom r n (Some x) xs (Suc i) (k - 1) cur"
      using Cons.prems by simp
    also have "\<dots> = splitFrom r n (Some (xs ! (k - 1 - 1))) (drop (k - 1) xs) (Suc i + (k - 1)) 0 cur"
      by (rule Cons.IH [OF k])
    also have "xs ! (k - 1 - 1) = (x # xs) ! (k - 1)" using k by (simp add: nth_Cons')
    also have "drop (k - 1) xs = drop k (x # xs)" using Cons.prems by (simp add: drop_Cons')
    also have "Suc i + (k - 1) = i + k" using Cons.prems by simp
    finally show ?thesis .
  qed
qed

lemma sectionRe_digit:
  assumes "isDigit c" "rest st = c # cs"
  shows "mt sectionRe n st = mt (seqs [Plus digit, chr CHR ''.'', Plus ws, Cls isUpperAZ]) n st"
proof -
  have "c \<noteq> CHR 0x0A" using assms(1) by (auto simp add: isDigit_def inRange_def cc_def)
  then show ?thesis using assms(2) by (simp add: sectionRe_def chr_def)
qed

text \<open>What the repetitions and the two alternatives of the delimiter read.\<close>

lemma spells_Cls:
  assumes "y \<in> set (mt (Cls Q) n st)"
  shows "\<exists>c. Q c \<and> spells st [c] y"
proof -
  from mt_Cls_elim [OF assms] obtain c cs where
    r: "rest st = c # cs" "Q c" and y: "y = MState (Some c) cs (Suc (pos st)) (caps st)"
    by blast
  have "spells st [c] y" unfolding spells_def using r y by simp
  then show ?thesis using r(2) by blast
qed

lemma spells_trans:
  assumes "spells a v b" "spells b w c"
  shows "spells a (v @ w) c"
  using assms unfolding spells_def by simp

lemma rep_spells:
  assumes m: "\<And>st y. y \<in> set (m st) \<Longrightarrow> \<exists>c. Q c \<and> spells st [c] y"
  shows "y \<in> set (rep m lo None k st) \<Longrightarrow>
         \<exists>w. spells st w y \<and> (\<forall>x\<in>set w. Q x) \<and> lo \<le> length w"
proof (induction k arbitrary: lo st)
  case 0
  then have "y = st" "lo = 0" by (simp_all split: if_splits)
  then show ?case unfolding spells_def by (intro exI [of _ "[]"]) simp
next
  case (Suc k)
  let ?more = "concat (map (rep m (lo - 1) None k)
                        (filter (\<lambda>y. \<not> (lo = 0 \<and> pos y = pos st)) (m st)))"
  from Suc.prems have "y \<in> set ?more \<or> (lo = 0 \<and> y = st)"
    by (auto simp add: Let_def split: if_splits)
  then show ?case
  proof
    assume "y \<in> set ?more"
    then obtain z where z: "z \<in> set (m st)" "y \<in> set (rep m (lo - 1) None k z)" by auto
    from m [OF z(1)] obtain c where c: "Q c" "spells st [c] z" by blast
    from Suc.IH [OF z(2)] obtain w where w: "spells z w y" "\<forall>x\<in>set w. Q x"
      "lo - 1 \<le> length w" by blast
    have "spells st ([c] @ w) y" using c(2) w(1) by (rule spells_trans)
    then show ?thesis using c(1) w(2,3) by (intro exI [of _ "c # w"]) simp
  next
    assume "lo = 0 \<and> y = st"
    then show ?thesis unfolding spells_def by (intro exI [of _ "[]"]) simp
  qed
qed

lemma many_spells:
  assumes "y \<in> set (mt (Rep lo None (Cls Q)) n st)"
  shows "\<exists>w. spells st w y \<and> (\<forall>x\<in>set w. Q x) \<and> lo \<le> length w"
proof -
  have "y \<in> set (rep (mt (Cls Q) n) lo None (lo + n + 1) st)"
    using assms by (simp only: mt.simps)
  then show ?thesis using rep_spells [of "mt (Cls Q) n" Q] spells_Cls by blast
qed

lemma numbered_match:
  assumes "y \<in> set (mt (seqs [Plus digit, chr CHR ''.'', Plus ws, Cls isUpperAZ]) n st)"
  shows "\<exists>ds sp u. rest st = ds @ CHR ''.'' # sp @ u # rest y \<and>
           ds \<noteq> [] \<and> (\<forall>x\<in>set ds. isDigit x) \<and> sp \<noteq> [] \<and> (\<forall>x\<in>set sp. isSpace x) \<and>
           isUpperAZ u \<and> pos y = pos st + length ds + length sp + 2"
proof -
  let ?dot = "Cls (\<lambda>c. c = CHR ''.'')"
  from assms have
    "y \<in> set (mt (Seq (Plus (Cls isDigit)) (Seq ?dot (Seq (Plus (Cls isSpace)) (Cls isUpperAZ)))) n st)"
    by (simp only: seqs.simps chr_def digit_def ws_def)
  from mt_Seq_elim [OF this] obtain z1 where z1: "z1 \<in> set (mt (Plus (Cls isDigit)) n st)"
    and r1: "y \<in> set (mt (Seq ?dot (Seq (Plus (Cls isSpace)) (Cls isUpperAZ))) n z1)" by blast
  from mt_Seq_elim [OF r1] obtain z2 where z2: "z2 \<in> set (mt ?dot n z1)"
    and r2: "y \<in> set (mt (Seq (Plus (Cls isSpace)) (Cls isUpperAZ)) n z2)" by blast
  from mt_Seq_elim [OF r2] obtain z3 where z3: "z3 \<in> set (mt (Plus (Cls isSpace)) n z2)"
    and y: "y \<in> set (mt (Cls isUpperAZ) n z3)" by blast
  from many_spells [OF z1] obtain ds where ds: "spells st ds z1" "\<forall>x\<in>set ds. isDigit x"
    "1 \<le> length ds" by blast
  from spells_Cls [OF z2] have dot: "spells z1 [CHR ''.''] z2" by auto
  from many_spells [OF z3] obtain sp where sp: "spells z2 sp z3" "\<forall>x\<in>set sp. isSpace x"
    "1 \<le> length sp" by blast
  from spells_Cls [OF y] obtain u where u: "isUpperAZ u" "spells z3 [u] y" by blast
  have "rest st = ds @ CHR ''.'' # sp @ u # rest y"
    using ds(1) dot sp(1) u(2) unfolding spells_def by simp
  moreover have "pos y = pos st + length ds + length sp + 2"
    using ds(1) dot sp(1) u(2) unfolding spells_def by simp
  moreover have "ds \<noteq> []" "sp \<noteq> []" using ds(3) sp(3) by auto
  ultimately show ?thesis using ds(2) sp(2) u(1) by blast
qed

lemma blank_match:
  assumes "y \<in> set (mt (seqs [chr CHR 0x0A, Star ws, chr CHR 0x0A, Star ws, chr CHR 0x0A]) n st)"
  shows "\<exists>s1 s2. rest st = CHR 0x0A # s1 @ CHR 0x0A # s2 @ CHR 0x0A # rest y \<and>
           (\<forall>x\<in>set s1. isSpace x) \<and> (\<forall>x\<in>set s2. isSpace x) \<and>
           pos y = pos st + length s1 + length s2 + 3"
proof -
  let ?nl = "Cls (\<lambda>c. c = CHR 0x0A)"
  let ?sp = "Star (Cls isSpace)"
  from assms have "y \<in> set (mt (Seq ?nl (Seq ?sp (Seq ?nl (Seq ?sp ?nl)))) n st)"
    by (simp only: seqs.simps chr_def ws_def)
  from mt_Seq_elim [OF this] obtain z1 where z1: "z1 \<in> set (mt ?nl n st)"
    and r1: "y \<in> set (mt (Seq ?sp (Seq ?nl (Seq ?sp ?nl))) n z1)" by blast
  from mt_Seq_elim [OF r1] obtain z2 where z2: "z2 \<in> set (mt ?sp n z1)"
    and r2: "y \<in> set (mt (Seq ?nl (Seq ?sp ?nl)) n z2)" by blast
  from mt_Seq_elim [OF r2] obtain z3 where z3: "z3 \<in> set (mt ?nl n z2)"
    and r3: "y \<in> set (mt (Seq ?sp ?nl) n z3)" by blast
  from mt_Seq_elim [OF r3] obtain z4 where z4: "z4 \<in> set (mt ?sp n z3)"
    and y: "y \<in> set (mt ?nl n z4)" by blast
  from spells_Cls [OF z1] have n1: "spells st [CHR 0x0A] z1" by auto
  from many_spells [OF z2] obtain s1 where s1: "spells z1 s1 z2" "\<forall>x\<in>set s1. isSpace x"
    by blast
  from spells_Cls [OF z3] have n2: "spells z2 [CHR 0x0A] z3" by auto
  from many_spells [OF z4] obtain s2 where s2: "spells z3 s2 z4" "\<forall>x\<in>set s2. isSpace x"
    by blast
  from spells_Cls [OF y] have n3: "spells z4 [CHR 0x0A] y" by auto
  have "rest st = CHR 0x0A # s1 @ CHR 0x0A # s2 @ CHR 0x0A # rest y"
    using n1 s1(1) n2 s2(1) n3 unfolding spells_def by simp
  moreover have "pos y = pos st + length s1 + length s2 + 3"
    using n1 s1(1) n2 s2(1) n3 unfolding spells_def by simp
  ultimately show ?thesis using s1(2) s2(2) by blast
qed

lemma newline_space: "isSpace CHR 0x0A"
  by (simp add: isSpace_def cc_def)

lemma newline_no_digit: "\<not> isDigit CHR 0x0A"
  by (simp add: isDigit_def inRange_def cc_def)

lemma sectionRe_alternatives:
  "mt sectionRe n st =
     mt (seqs [chr CHR 0x0A, Star ws, chr CHR 0x0A, Star ws, chr CHR 0x0A]) n st @
     mt (seqs [Plus digit, chr CHR ''.'', Plus ws, Cls isUpperAZ]) n st"
  by (simp add: sectionRe_def)

lemma numbered_needs_digit:
  assumes "rest st = c # cs" "\<not> isDigit c"
  shows "mt (seqs [Plus digit, chr CHR ''.'', Plus ws, Cls isUpperAZ]) n st = []"
  using assms by (cases st) (simp add: digit_def)

lemma blank_needs_newline:
  assumes "rest st = c # cs" "c \<noteq> CHR 0x0A"
  shows "mt (seqs [chr CHR 0x0A, Star ws, chr CHR 0x0A, Star ws, chr CHR 0x0A]) n st = []"
  using assms by (cases st) (simp add: chr_def)

text \<open>The step of the splitter at a delimiter.\<close>

lemma split_at_match:
  assumes m: "mt sectionRe n (MState p (c # cs) i []) = y # ys"
    and cs: "cs = w @ u # rest y" and py: "pos y = i + length w + 2"
  shows "splitFrom sectionRe n p (c # cs) i 0 cur =
           rev cur # splitFrom sectionRe n (Some u) (rest y) (i + length w + 2) 0 []"
proof -
  have ne: "pos y \<noteq> i" using py by simp
  have "splitFrom sectionRe n p (c # cs) i 0 cur =
          rev cur # splitFrom sectionRe n (Some c) cs (Suc i) (pos y - i - 1) []"
    using m ne by simp
  also have "pos y - i - 1 = Suc (length w)" using py by simp
  also have "splitFrom sectionRe n (Some c) cs (Suc i) (Suc (length w)) [] =
          splitFrom sectionRe n (Some (cs ! (Suc (length w) - 1))) (drop (Suc (length w)) cs)
            (Suc i + Suc (length w)) 0 []"
    using cs by (intro splitFrom_skip) simp_all
  also have "cs ! (Suc (length w) - 1) = u" using cs by simp
  also have "drop (Suc (length w)) cs = rest y" using cs by simp
  finally show ?thesis by simp
qed

lemma numbered_step:
  assumes "isDigit c" and "mt sectionRe n (MState p (c # cs) i []) = y # ys"
  shows "\<exists>k. k < length cs \<and> isUpperAZ (cs ! k) \<and> rest y = drop (Suc k) cs \<and>
           pos y = i + k + 2 \<and>
           (\<exists>ds sp. take k cs = ds @ CHR ''.'' # sp \<and> (\<forall>x\<in>set ds. isDigit x) \<and>
                    sp \<noteq> [] \<and> (\<forall>x\<in>set sp. isSpace x)) \<and>
           splitFrom sectionRe n p (c # cs) i 0 cur =
             rev cur # splitFrom sectionRe n (Some (cs ! k)) (drop (Suc k) cs) (i + k + 2) 0 []"
proof -
  let ?st = "MState p (c # cs) i []"
  have "y \<in> set (mt sectionRe n ?st)" using assms(2) by simp
  then have "y \<in> set (mt (seqs [Plus digit, chr CHR ''.'', Plus ws, Cls isUpperAZ]) n ?st)"
    using sectionRe_digit [OF assms(1), of ?st cs n] by simp
  from numbered_match [OF this] obtain ds sp u where
    r: "c # cs = ds @ CHR ''.'' # sp @ u # rest y" and ds: "ds \<noteq> []" "\<forall>x\<in>set ds. isDigit x"
    and sp: "sp \<noteq> []" "\<forall>x\<in>set sp. isSpace x" and u: "isUpperAZ u"
    and py: "pos y = i + length ds + length sp + 2" by auto
  from ds(1) obtain d ds' where dd: "ds = d # ds'" by (cases ds) auto
  define w where "w = ds' @ CHR ''.'' # sp"
  have cs: "cs = w @ u # rest y" using r dd w_def by simp
  have lw: "length w = length ds' + length sp + 1" using w_def by simp
  have pw: "pos y = i + length w + 2" using py dd lw by simp
  have k1: "length w < length cs" using cs by simp
  have k2: "cs ! length w = u" using cs by simp
  have k3: "drop (Suc (length w)) cs = rest y" using cs by simp
  have k4: "take (length w) cs = w" using cs by simp
  have ds': "\<forall>x\<in>set ds'. isDigit x" using ds(2) dd by simp
  have st: "\<exists>ds sp. take (length w) cs = ds @ CHR ''.'' # sp \<and> (\<forall>x\<in>set ds. isDigit x) \<and>
                    sp \<noteq> [] \<and> (\<forall>x\<in>set sp. isSpace x)"
    using k4 w_def ds' sp by blast
  have "splitFrom sectionRe n p (c # cs) i 0 cur =
           rev cur # splitFrom sectionRe n (Some u) (rest y) (i + length w + 2) 0 []"
    using assms(2) cs pw by (rule split_at_match)
  then have sf: "splitFrom sectionRe n p (c # cs) i 0 cur =
      rev cur # splitFrom sectionRe n (Some (cs ! length w)) (drop (Suc (length w)) cs)
        (i + length w + 2) 0 []"
    by (simp only: k2 k3)
  show ?thesis using k1 k2 k3 pw st sf u by (intro exI [of _ "length w"]) simp
qed

lemma blank_step:
  assumes "c = CHR 0x0A" and "mt sectionRe n (MState p (c # cs) i []) = y # ys"
  shows "\<exists>k. 2 \<le> k \<and> k \<le> length cs \<and> (\<forall>x\<in>set (take k cs). isSpace x) \<and>
           cs ! (k - 1) = CHR 0x0A \<and> rest y = drop k cs \<and> pos y = i + k + 1 \<and>
           splitFrom sectionRe n p (c # cs) i 0 cur =
             rev cur # splitFrom sectionRe n (Some (cs ! (k - 1))) (drop k cs) (i + k + 1) 0 []"
proof -
  let ?st = "MState p (c # cs) i []"
  have "\<not> isDigit c" using assms(1) newline_no_digit by simp
  then have nb: "mt (seqs [Plus digit, chr CHR ''.'', Plus ws, Cls isUpperAZ]) n ?st = []"
    by (intro numbered_needs_digit [of ?st c cs]) simp_all
  have eq: "mt sectionRe n ?st =
      mt (seqs [chr CHR 0x0A, Star ws, chr CHR 0x0A, Star ws, chr CHR 0x0A]) n ?st"
    by (simp only: sectionRe_alternatives nb append_Nil2)
  have "y \<in> set (mt sectionRe n ?st)" using assms(2) by simp
  then have "y \<in> set (mt (seqs [chr CHR 0x0A, Star ws, chr CHR 0x0A, Star ws, chr CHR 0x0A]) n ?st)"
    by (simp only: eq)
  from blank_match [OF this] obtain s1 s2 where
    r: "c # cs = CHR 0x0A # s1 @ CHR 0x0A # s2 @ CHR 0x0A # rest y"
    and s: "\<forall>x\<in>set s1. isSpace x" "\<forall>x\<in>set s2. isSpace x"
    and py: "pos y = i + length s1 + length s2 + 3" by auto
  define w where "w = s1 @ CHR 0x0A # s2"
  define k where "k = Suc (length w)"
  have cs: "cs = w @ CHR 0x0A # rest y" using r w_def by simp
  have lw: "length w = length s1 + length s2 + 1" using w_def by simp
  have pw: "pos y = i + length w + 2" using py lw by simp
  have k1: "2 \<le> k" "k \<le> length cs" using cs lw k_def by simp_all
  have k2: "cs ! (k - 1) = CHR 0x0A" using cs k_def by simp
  have k3: "drop k cs = rest y" using cs k_def by simp
  have "take k cs = w @ [CHR 0x0A]" using cs k_def by simp
  then have k4: "\<forall>x\<in>set (take k cs). isSpace x"
    using s w_def newline_space by auto
  have "splitFrom sectionRe n p (c # cs) i 0 cur =
           rev cur # splitFrom sectionRe n (Some CHR 0x0A) (rest y) (i + length w + 2) 0 []"
    using assms(2) cs pw by (rule split_at_match)
  then have sf: "splitFrom sectionRe n p (c # cs) i 0 cur =
      rev cur # splitFrom sectionRe n (Some (cs ! (k - 1))) (drop k cs) (i + k + 1) 0 []"
    using k2 k3 k_def by simp
  have pk: "pos y = i + k + 1" using pw k_def by simp
  show ?thesis using k1 k2 k3 k4 pk sf by (intro exI [of _ k]) simp
qed

lemma delimiter_start:
  assumes "mt sectionRe n (MState p (c # cs) i []) \<noteq> []"
  shows "isDigit c \<or> c = CHR 0x0A"
proof (rule ccontr)
  assume a: "\<not> (isDigit c \<or> c = CHR 0x0A)"
  let ?st = "MState p (c # cs) i []"
  have nb: "mt (seqs [Plus digit, chr CHR ''.'', Plus ws, Cls isUpperAZ]) n ?st = []"
    using a by (intro numbered_needs_digit [of ?st c cs]) simp_all
  have bl: "mt (seqs [chr CHR 0x0A, Star ws, chr CHR 0x0A, Star ws, chr CHR 0x0A]) n ?st = []"
    using a by (intro blank_needs_newline [of ?st c cs]) simp_all
  have "mt sectionRe n ?st = []"
    by (simp only: sectionRe_alternatives nb bl append_Nil2)
  then show False using assms by (simp only: not_True_eq_False simp_thms)
qed

text \<open>
  Claim C9, as amended. In the splitter of \<open>parseMultipleMedications\<close> the delimiter can match
  only where the text has a digit or a newline. Where it matches at a digit, the match is the
  numbered-list alternative: it consumes the digits of the item number, the dot, one or more
  white-space characters and the capital letter after them, so the next section starts right
  after that capital letter and lacks the first letter of its leading word (the item
  "1. Lisinopril 10mg" gives the section "isinopril 10mg"). Where it matches at a newline,
  the match is the blank-line alternative: it consumes at least three characters, all of
  them white space and the last a newline, so the next section starts at the first character
  after them and loses no letter. In both cases the section collected so far is emitted as
  it is. A character at which the delimiter does not match is added to the current section,
  and the end of the text emits the current section.
\<close>

theorem numbered_section_loses_capital:
  "(isDigit c \<and> mt sectionRe n (MState p (c # cs) i []) = y # ys \<longrightarrow>
      (\<exists>k. k < length cs \<and> isUpperAZ (cs ! k) \<and> rest y = drop (Suc k) cs \<and>
           pos y = i + k + 2 \<and>
           (\<exists>ds sp. take k cs = ds @ CHR ''.'' # sp \<and> (\<forall>x\<in>set ds. isDigit x) \<and>
                    sp \<noteq> [] \<and> (\<forall>x\<in>set sp. isSpace x)) \<and>
           splitFrom sectionRe n p (c # cs) i 0 cur =
             rev cur # splitFrom sectionRe n (Some (cs ! k)) (drop (Suc k) cs) (i + k + 2) 0 [])) \<and>
   (c = CHR 0x0A \<and> mt sectionRe n (MState p (c # cs) i []) = y # ys \<longrightarrow>
      (\<exists>k. 2 \<le> k \<and> k \<le> length cs \<and> (\<forall>x\<in>set (take k cs). isSpace x) \<and>
           cs ! (k - 1) = CHR 0x0A \<and> rest y = drop k cs \<and> pos y = i + k + 1 \<and>
           splitFrom sectionRe n p (c # cs) i 0 cur =
             rev cur # splitFrom sectionRe n (Some (cs ! (k - 1))) (drop k cs) (i + k + 1) 0 [])) \<and>
   (mt sectionRe n (MState p (c # cs) i []) \<noteq> [] \<longrightarrow> isDigit c \<or> c = CHR 0x0A) \<and>
   (mt sectionRe n (MState p (c # cs) i []) = [] \<longrightarrow>
      splitFrom sectionRe n p (c # cs) i 0 cur =
        splitFrom sectionRe n (Some c) cs (Suc i) 0 (c # cur)) \<and>
   splitFrom sectionRe n p [] i 0 cur = [rev cur]"
proof -
  have c1: "isDigit c \<and> mt sectionRe n (MState p (c # cs) i []) = y # ys \<longrightarrow>
      (\<exists>k. k < length cs \<and> isUpperAZ (cs ! k) \<and> rest y = drop (Suc k) cs \<and>
           pos y = i + k + 2 \<and>
           (\<exists>ds sp. take k cs = ds @ CHR ''.'' # sp \<and> (\<forall>x\<in>set ds. isDigit x) \<and>
                    sp \<noteq> [] \<and> (\<forall>x\<in>set sp. isSpace x)) \<and>
           splitFrom sectionRe n p (c # cs) i 0 cur =
             rev cur # splitFrom sectionRe n (Some (cs ! k)) (drop (Suc k) cs) (i + k + 2) 0 [])"
    using numbered_step [of c n p cs i y ys cur] by blast
  have c2: "c = CHR 0x0A \<and> mt sectionRe n (MState p (c # cs) i []) = y # ys \<longrightarrow>
      (\<exists>k. 2 \<le> k \<and> k \<le> length cs \<and> (\<forall>x\<in>set (take k cs). isSpace x) \<and>
           cs ! (k - 1) = CHR 0x0A \<and> rest y = drop k cs \<and> pos y = i + k + 1 \<and>
           splitFrom sectionRe n p (c # cs) i 0 cur =
             rev cur # splitFrom sectionRe n (Some (cs ! (k - 1))) (drop k cs) (i + k + 1) 0 [])"
    using blank_step [of c n p cs i y ys cur] by blast
  have c3: "mt sectionRe n (MState p (c # cs) i []) \<noteq> [] \<longrightarrow> isDigit c \<or> c = CHR 0x0A"
    using delimiter_start [of n p c cs i] by blast
  have c4: "mt sectionRe n (MState p (c # cs) i []) = [] \<longrightarrow>
      splitFrom sectionRe n p (c # cs) i 0 cur =
        splitFrom sectionRe n (Some c) cs (Suc i) 0 (c # cur)"
    by simp
  have c5: "splitFrom sectionRe n p [] i 0 cur = [rev cur]" by simp
  from c1 c2 c3 c4 c5 show ?thesis by (intro conjI)
qed

subsection \<open>Evaluation on concrete texts\<close>

lemma rep_numeral:
  "rep m lo hi (numeral k) st =
     (if hi = Some 0 then [st]
      else (let more = concat (map (rep m (lo - 1) (map_option (\<lambda>h. h - 1) hi) (pred_numeral k))
                          (filter (\<lambda>y. \<not> (lo = 0 \<and> pos y = pos st)) (m st)))
            in if lo \<noteq> 0 then more else more @ [st]))"
  by (simp add: numeral_eq_Suc)

lemmas char_ev = cc_def inRange_def isDigit_def isUpperAZ_def isLowerAZ_def isAlpha_def
  isSpace_def isWordChar_def isLineTerm_def canon_def toLowerChar_def toLowerCase_def
  char_of_def bit_Suc_0_iff

lemmas pat_ev = lit_def liti_def chr_def chri_def digit_def ws_def alpha_def
  numRe_def unitRe_def dosagePatterns_def takeTabletRe_def frequencyPatterns_def
  routePatterns_def prescriberPatterns_def quantityRe_def refillsRe_def instructionRe_def
  mixedCasePattern_def namePattern_def excludePatterns_def threeLettersRe_def
  edgeNonWordRe_def commonlyKnownRe_def rxNumberRe_def bulletRe_def numberedRe_def
  sectionRe_def

lemmas eng_ev = jsMatch_def jsTest_def match0_def group_def slice_def countMatches_def
  removeAll_def jsSplit_def jsTrim_def rep_numeral Let_def

lemmas parse_ev = dosageText_def routeText_def quantityStep_def refillsStep_def
  instructionsStep_def candidateFree_def nameMixedCase_def nameBeforeDosage_def
  textLines_def isDrugNameLine_def nameFromLine_def nameCommonlyKnown_def
  parseMedicationFromText_def emptyMed_def sectionStep_def isMultiple_def
  parseMultipleMedications_def

lemmas ev = char_ev pat_ev eng_ev parse_ev

text \<open>The bottle label, step by step.\<close>

lemma label_dosage:
  "dosageLoop dosagePatterns labelText st =
     ((fst st)\<lparr>dosage := Some ''10 mg''\<rparr>, Some (RMatch 11 15 [(1, 11, 13)]))"
  by (simp add: ev labelText_def)

lemma label_frequency:
  "frequencyLoop frequencyPatterns labelText med = med\<lparr>frequency := Some ''Take 1 tablet''\<rparr>"
  by (simp add: ev labelText_def)

lemma label_route:
  "routeLoop routePatterns labelText med = med\<lparr>route := Some ''mouth''\<rparr>"
  by (simp add: ev labelText_def)

lemma label_prescriber:
  "prescriberLoop prescriberPatterns labelText med = med"
  by (simp add: ev labelText_def)

lemma label_quantity:
  "quantityStep labelText med = med\<lparr>quantity := Some ''30''\<rparr>"
  by (simp add: ev labelText_def)

lemma label_refills:
  "refillsStep labelText med = med\<lparr>refills := Some ''2''\<rparr>"
  by (simp add: ev labelText_def)

lemma label_instructions:
  "instructionsStep labelText med = med"
  by (simp add: ev labelText_def)

lemma label_mixedCase:
  "nameMixedCase labelText med = med"
  by (simp add: ev labelText_def)

lemma label_beforeDosage:
  assumes "index dm = 11" "name med = None" "frequency med = Some ''Take 1 tablet''"
    "route med = Some ''mouth''" "instructions med = None" "quantity med = Some ''30''"
  shows "nameBeforeDosage labelText (Some dm) med = med\<lparr>name := Some ''Lisinopril''\<rparr>"
  using assms by (simp add: ev labelText_def)

lemma label_single: "\<not> isMultiple labelText"
  by (simp add: ev labelText_def)

lemma label_parse:
  "parseMedicationFromText labelText =
     \<lparr>name = Some ''Lisinopril'', dosage = Some ''10 mg'', frequency = Some ''Take 1 tablet'',
      route = Some ''mouth'', prescriber = None, quantity = Some ''30'',
      refills = Some ''2'', instructions = None\<rparr>"
  by (simp add: parseMedicationFromText_def Let_def emptyMed_def label_dosage label_frequency
      label_route label_prescriber label_quantity label_refills label_instructions
      label_mixedCase label_beforeDosage nameFromLine_def nameCommonlyKnown_def)

text \<open>
  Claim C3, as amended. The text "Lisinopril 10mg / Take 1 tablet by mouth once daily /
  Qty: 30 / Refills: 2" gives exactly one candidate, with name "Lisinopril", dosage "10 mg",
  frequency "Take 1 tablet", route "mouth", quantity "30", refills "2", no prescriber and
  no instructions, and derived confidence 100.
\<close>

theorem label_candidate:
  "parseMultipleMedications labelText =
     [\<lparr>name = Some ''Lisinopril'', dosage = Some ''10 mg'', frequency = Some ''Take 1 tablet'',
       route = Some ''mouth'', prescriber = None, quantity = Some ''30'',
       refills = Some ''2'', instructions = None\<rparr>] \<and>
   map getMedicationConfidence (parseMultipleMedications labelText) = [100]"
  by (simp add: parseMultipleMedications_def label_single label_parse Let_def
      confidence_cases)

text \<open>
  The claim as first stated asks for a frequency that matches "once daily". The pattern
  "take N tablet" comes first in the list of frequency patterns and matches the label, so
  the frequency is "Take 1 tablet", which does not contain "once daily".
\<close>

theorem label_frequency_counterexample:
  "map frequency (parseMultipleMedications labelText) = [Some ''Take 1 tablet''] \<and>
   \<not> jsIncludes (toLowerCase ''Take 1 tablet'') ''once daily''"
  by (simp add: parseMultipleMedications_def label_single label_parse Let_def char_ev)

text \<open>The fragment.\<close>

lemma fragment_multiple: "isMultiple fragmentText"
  by (simp add: ev fragmentText_def)

lemma fragment_sections: "foldl sectionStep [] (jsSplit sectionRe fragmentText) = []"
  by (simp add: ev fragmentText_def)

lemma fragment_single: "parseMedicationFromText fragmentText = emptyMed"
  by (simp add: ev fragmentText_def)

text \<open>
  Claim C2. The claim asks that the fallback of a "multiple" text without kept sections
  still requires a name, a dosage or a frequency. The code returns the single extraction
  unguarded: the text "1. A" is classified "multiple", keeps no section, and the result is
  a list of one candidate without any field.
\<close>

theorem fallback_unguarded:
  "isMultiple fragmentText \<and>
   foldl sectionStep [] (jsSplit sectionRe fragmentText) = [] \<and>
   parseMultipleMedications fragmentText = [emptyMed] \<and>
   \<not> (truthy (name emptyMed) \<or> truthy (dosage emptyMed) \<or> truthy (frequency emptyMed))"
  by (simp add: parseMultipleMedications_def fragment_multiple fragment_sections
      fragment_single Let_def) (simp add: emptyMed_def)

text \<open>Sections.\<close>

lemma item_match:
  "mt sectionRe 18 (MState None itemText 0 []) =
     [MState (Some CHR ''L'') ''isinopril 10mg'' 4 []]"
  by (simp add: ev itemText_def)

lemma item_sections: "jsSplit sectionRe itemText = [Nil, ''isinopril 10mg'']"
  by (simp add: ev itemText_def)

lemma blank_line_match:
  "mt sectionRe 14 (MState (Some CHR ''b'') ''\<newline>\<newline>\<newline>Metformin'' 2 []) =
     [MState (Some CHR 0x0A) ''Metformin'' 5 []]"
  by (simp add: ev)

lemma blank_line_sections: "jsSplit sectionRe blankLineText = [''Ab'', ''Metformin'']"
  by (simp add: ev blankLineText_def)

theorem numbered_section_loses_capital_witness:
  "isDigit CHR ''1'' \<and>
   mt sectionRe 18 (MState None ''1. Lisinopril 10mg'' 0 []) =
     [MState (Some CHR ''L'') ''isinopril 10mg'' 4 []] \<and>
   (\<exists>k. k < length ''. Lisinopril 10mg'' \<and> isUpperAZ (''. Lisinopril 10mg'' ! k) \<and>
        ''isinopril 10mg'' = drop (Suc k) ''. Lisinopril 10mg'' \<and> 4 = 0 + k + 2 \<and>
        (\<exists>ds sp. take k ''. Lisinopril 10mg'' = ds @ CHR ''.'' # sp \<and>
                 (\<forall>x\<in>set ds. isDigit x) \<and> sp \<noteq> [] \<and> (\<forall>x\<in>set sp. isSpace x)) \<and>
        splitFrom sectionRe 18 None ''1. Lisinopril 10mg'' 0 0 [] =
          [] # splitFrom sectionRe 18 (Some (''. Lisinopril 10mg'' ! k))
                 (drop (Suc k) ''. Lisinopril 10mg'') (0 + k + 2) 0 []) \<and>
   jsSplit sectionRe itemText = [Nil, ''isinopril 10mg''] \<and>
   mt sectionRe 14 (MState (Some CHR ''b'') ''\<newline>\<newline>\<newline>Metformin'' 2 []) =
     [MState (Some CHR 0x0A) ''Metformin'' 5 []] \<and>
   (\<exists>k. 2 \<le> k \<and> k \<le> length ''\<newline>\<newline>Metformin'' \<and>
        (\<forall>x\<in>set (take k ''\<newline>\<newline>Metformin''). isSpace x) \<and>
        ''\<newline>\<newline>Metformin'' ! (k - 1) = CHR 0x0A \<and>
        ''Metformin'' = drop k ''\<newline>\<newline>Metformin'' \<and> 5 = 2 + k + 1 \<and>
        splitFrom sectionRe 14 (Some CHR ''b'') ''\<newline>\<newline>\<newline>Metformin'' 2 0 ''bA'' =
          ''Ab'' # splitFrom sectionRe 14 (Some (''\<newline>\<newline>Metformin'' ! (k - 1)))
                 (drop k ''\<newline>\<newline>Metformin'') (2 + k + 1) 0 []) \<and>
   \<not> isDigit CHR ''A'' \<and> CHR ''A'' \<noteq> CHR 0x0A \<and>
   mt sectionRe 14 (MState None ''Ab\<newline>\<newline>\<newline>Metformin'' 0 []) = [] \<and>
   splitFrom sectionRe 14 None ''Ab\<newline>\<newline>\<newline>Metformin'' 0 0 [] =
     splitFrom sectionRe 14 (Some CHR ''A'') ''b\<newline>\<newline>\<newline>Metformin'' (Suc 0) 0 ''A'' \<and>
   jsSplit sectionRe blankLineText = [''Ab'', ''Metformin'']"
proof -
  have d: "isDigit CHR ''1''" by (simp add: char_ev)
  note m = item_match [unfolded itemText_def]
  note n1 = numbered_section_loses_capital [where c = "CHR ''1''" and n = 18 and p = None
      and cs = "''. Lisinopril 10mg''" and i = 0
      and y = "MState (Some CHR ''L'') ''isinopril 10mg'' 4 []" and ys = "[]" and cur = "[]"]
  note t1 = n1 [THEN conjunct1, THEN mp, OF conjI [OF d m], unfolded mstate.sel rev.simps(1)]
  note bm = blank_line_match
  note n2 = numbered_section_loses_capital [where c = "CHR 0x0A" and n = 14
      and p = "Some CHR ''b''" and cs = "''\<newline>\<newline>Metformin''" and i = 2
      and y = "MState (Some CHR 0x0A) ''Metformin'' 5 []" and ys = "[]" and cur = "''bA''"]
  note t2 = n2 [THEN conjunct2, THEN conjunct1, THEN mp, OF conjI [OF refl bm],
      unfolded mstate.sel rev.simps append.simps]
  have a1: "\<not> isDigit CHR ''A''" by (simp add: char_ev)
  have a2: "CHR ''A'' \<noteq> CHR 0x0A" by simp
  note n3 = numbered_section_loses_capital [where c = "CHR ''A''" and n = 14 and p = None
      and cs = "''b\<newline>\<newline>\<newline>Metformin''" and i = 0 and cur = "[]"]
  note s3 = n3 [THEN conjunct2, THEN conjunct2, THEN conjunct1]
  have e: "mt sectionRe 14 (MState None ''Ab\<newline>\<newline>\<newline>Metformin'' 0 []) = []"
  proof (rule ccontr)
    assume "mt sectionRe 14 (MState None ''Ab\<newline>\<newline>\<newline>Metformin'' 0 []) \<noteq> []"
    with s3 have "isDigit CHR ''A'' \<or> CHR ''A'' = CHR 0x0A" by (rule mp)
    with a1 a2 show False by blast
  qed
  note t3 = n3 [THEN conjunct2, THEN conjunct2, THEN conjunct2, THEN conjunct1, THEN mp, OF e]
  show ?thesis
    using d m t1 item_sections bm t2 a1 a2 e t3 blank_line_sections by (intro conjI)
qed

text \<open>
  The claim as first stated speaks of each section of a text that the numbered-list rule
  classifies as "multiple". A line before the first item is a section of its own; it is
  long enough to be handed to field extraction, and it keeps its capital letter.
\<close>

theorem headed_list_counterexample:
  "jsTest numberedRe headedListText \<and>
   jsSplit sectionRe headedListText =
     [''Amoxicillin 500mg capsule oral\<newline>'', ''isinopril 10mg''] \<and>
   length (jsTrim ''Amoxicillin 500mg capsule oral\<newline>'') > 20"
  by (simp add: ev headedListText_def)

text \<open>Competing patterns.\<close>

lemma competing_dosage:
  "jsMatch (dosagePatterns ! 0) competingText = Some (RMatch 17 23 [(1, 18, 19)])"
  "jsMatch (dosagePatterns ! 1) competingText = Some (RMatch 0 5 [(1, 0, 2)])"
  by (simp_all add: ev competingText_def)

lemma competing_dosageText:
  "dosageText competingText (RMatch 17 23 [(1, 18, 19)]) = ''5 mg''"
  by (simp add: ev competingText_def)

lemma competing_frequency:
  "jsMatch (frequencyPatterns ! 0) competingText = Some (RMatch 24 37 [])"
  "jsMatch (frequencyPatterns ! 1) competingText = Some (RMatch 6 16 [(1, 6, 10)])"
  by (simp_all add: ev competingText_def)

lemma competing_route:
  "jsMatch (routePatterns ! 0) competingText = Some (RMatch 45 53 [(1, 48, 53)])"
  by (simp add: ev competingText_def)

lemma competing_prescriber:
  "jsMatch (prescriberPatterns ! 0) competingText = Some (RMatch 73 85 [(2, 77, 85)])"
  by (simp add: ev competingText_def)

lemma competing_texts:
  "jsTrim (match0 competingText (RMatch 24 37 [])) = ''take 1 tablet''"
  "routeText competingText (RMatch 45 53 [(1, 48, 53)]) = ''mouth''"
  "jsTrim (match0 competingText (RMatch 73 85 [(2, 77, 85)])) = ''Dr. Jane Doe''"
  by (simp_all add: ev competingText_def)

lemma pattern_counts:
  "0 < length dosagePatterns" "0 < length frequencyPatterns" "0 < length routePatterns"
  "0 < length prescriberPatterns"
  by (simp_all add: dosagePatterns_def frequencyPatterns_def routePatterns_def
      prescriberPatterns_def)

theorem first_match_wins_witness:
  "jsMatch (dosagePatterns ! 0) competingText = Some (RMatch 17 23 [(1, 18, 19)]) \<and>
   jsMatch (dosagePatterns ! 1) competingText = Some (RMatch 0 5 [(1, 0, 2)]) \<and>
   dosage (parseMedicationFromText competingText) = Some ''5 mg'' \<and>
   jsMatch (frequencyPatterns ! 0) competingText = Some (RMatch 24 37 []) \<and>
   jsMatch (frequencyPatterns ! 1) competingText = Some (RMatch 6 16 [(1, 6, 10)]) \<and>
   frequency (parseMedicationFromText competingText) = Some ''take 1 tablet'' \<and>
   jsMatch (routePatterns ! 0) competingText = Some (RMatch 45 53 [(1, 48, 53)]) \<and>
   route (parseMedicationFromText competingText) = Some ''mouth'' \<and>
   jsMatch (prescriberPatterns ! 0) competingText = Some (RMatch 73 85 [(2, 77, 85)]) \<and>
   prescriber (parseMedicationFromText competingText) = Some ''Dr. Jane Doe'' \<and>
   truthy (name (emptyMed\<lparr>name := Some ''cloNIDine''\<rparr>)) \<and>
   nameCommonlyKnown competingText (emptyMed\<lparr>name := Some ''cloNIDine''\<rparr>) =
     emptyMed\<lparr>name := Some ''cloNIDine''\<rparr>"
  using first_match_wins [of 0 competingText "RMatch 17 23 [(1, 18, 19)]"
      0 "RMatch 24 37 []" 0 "RMatch 45 53 [(1, 48, 53)]" 0 "RMatch 73 85 [(2, 77, 85)]"
      "emptyMed\<lparr>name := Some ''cloNIDine''\<rparr>" None]
    competing_dosage competing_dosageText competing_frequency competing_route
    competing_prescriber competing_texts pattern_counts
  by simp

end
